theory Spec2Isabelle
  imports Complex_Main
begin

section \<open>JavaScript numbers\<close>

text \<open>
  The component computes with JavaScript numbers. Arithmetic on finite values is modelled
  exactly, over the reals: the rounding of doubles and overflow to an infinity are not
  modelled. What IEEE 754 adds to the reals is kept: NaN, which an invalid date brings in
  and every operation hands on, the two infinities that a division by zero produces, and
  the negative zero that \<open>Math.ceil\<close> returns on an argument in \<open>(-1, 0)\<close>.
  \<open>Fin 0\<close> is the positive zero.
\<close>

datatype jsnum = Fin real | NegZero | PosInf | NegInf | NaN

fun is_neg :: "jsnum \<Rightarrow> bool" where
  "is_neg (Fin x) = (x < 0)"
| "is_neg NegZero = True"
| "is_neg PosInf = False"
| "is_neg NegInf = True"
| "is_neg NaN = False"

fun is_zero :: "jsnum \<Rightarrow> bool" where
  "is_zero (Fin x) = (x = 0)"
| "is_zero NegZero = True"
| "is_zero PosInf = False"
| "is_zero NegInf = False"
| "is_zero NaN = False"

fun is_inf :: "jsnum \<Rightarrow> bool" where
  "is_inf PosInf = True"
| "is_inf NegInf = True"
| "is_inf (Fin x) = False"
| "is_inf NegZero = False"
| "is_inf NaN = False"

fun is_finite :: "jsnum \<Rightarrow> bool" where
  "is_finite (Fin x) = True"
| "is_finite NegZero = True"
| "is_finite PosInf = False"
| "is_finite NegInf = False"
| "is_finite NaN = False"

text \<open>The real value of a finite number; both zeros are 0. Only read on finite numbers.\<close>

fun num_val :: "jsnum \<Rightarrow> real" where
  "num_val (Fin x) = x"
| "num_val NegZero = 0"
| "num_val PosInf = 0"
| "num_val NegInf = 0"
| "num_val NaN = 0"

definition signed_zero :: "bool \<Rightarrow> jsnum" where
  "signed_zero neg = (if neg then NegZero else Fin 0)"

definition signed_inf :: "bool \<Rightarrow> jsnum" where
  "signed_inf neg = (if neg then NegInf else PosInf)"

text \<open>Unary minus: the zeros change sign too.\<close>

fun js_neg :: "jsnum \<Rightarrow> jsnum" where
  "js_neg (Fin x) = (if x = 0 then NegZero else Fin (- x))"
| "js_neg NegZero = Fin 0"
| "js_neg PosInf = NegInf"
| "js_neg NegInf = PosInf"
| "js_neg NaN = NaN"

text \<open>
  The operator \<open>+\<close>: infinities of opposite sign give NaN; a sum that is zero is the
  positive zero unless both operands are the negative zero.
\<close>

definition js_add :: "jsnum \<Rightarrow> jsnum \<Rightarrow> jsnum" where
  "js_add a b =
     (if a = NaN \<or> b = NaN then NaN
      else if is_inf a then (if is_inf b \<and> is_neg a \<noteq> is_neg b then NaN else a)
      else if is_inf b then b
      else if a = NegZero \<and> b = NegZero then NegZero
      else Fin (num_val a + num_val b))"

definition js_sub :: "jsnum \<Rightarrow> jsnum \<Rightarrow> jsnum" where
  "js_sub a b = js_add a (js_neg b)"

text \<open>The operators \<open>*\<close> and \<open>/\<close>: the sign of the result is the exclusive or of the signs.\<close>

definition js_mul :: "jsnum \<Rightarrow> jsnum \<Rightarrow> jsnum" where
  "js_mul a b =
     (if a = NaN \<or> b = NaN then NaN
      else if is_inf a \<or> is_inf b
        then (if is_zero a \<or> is_zero b then NaN else signed_inf (is_neg a \<noteq> is_neg b))
      else if is_zero a \<or> is_zero b then signed_zero (is_neg a \<noteq> is_neg b)
      else Fin (num_val a * num_val b))"

definition js_div :: "jsnum \<Rightarrow> jsnum \<Rightarrow> jsnum" where
  "js_div a b =
     (if a = NaN \<or> b = NaN then NaN
      else if is_inf a then (if is_inf b then NaN else signed_inf (is_neg a \<noteq> is_neg b))
      else if is_inf b then signed_zero (is_neg a \<noteq> is_neg b)
      else if is_zero b then (if is_zero a then NaN else signed_inf (is_neg a \<noteq> is_neg b))
      else if is_zero a then signed_zero (is_neg a \<noteq> is_neg b)
      else Fin (num_val a / num_val b))"

text \<open>\<open>Math.ceil\<close>: an argument in \<open>(-1, 0)\<close> gives the negative zero.\<close>

fun Math_ceil :: "jsnum \<Rightarrow> jsnum" where
  "Math_ceil (Fin x) = (if -1 < x \<and> x < 0 then NegZero else Fin (of_int \<lceil>x\<rceil>))"
| "Math_ceil NegZero = NegZero"
| "Math_ceil PosInf = PosInf"
| "Math_ceil NegInf = NegInf"
| "Math_ceil NaN = NaN"

text \<open>
  The order \<open>Math.min\<close> and \<open>Math.max\<close> compare with, on numbers that are not NaN:
  the negative zero is below the positive zero.
\<close>

fun js_lt :: "jsnum \<Rightarrow> jsnum \<Rightarrow> bool" where
  "js_lt NaN b = False"
| "js_lt a NaN = False"
| "js_lt NegInf b = (b \<noteq> NegInf)"
| "js_lt a NegInf = False"
| "js_lt PosInf b = False"
| "js_lt a PosInf = True"
| "js_lt NegZero NegZero = False"
| "js_lt NegZero (Fin y) = (0 \<le> y)"
| "js_lt (Fin x) NegZero = (x < 0)"
| "js_lt (Fin x) (Fin y) = (x < y)"

definition Math_min :: "jsnum \<Rightarrow> jsnum \<Rightarrow> jsnum" where
  "Math_min a b = (if a = NaN \<or> b = NaN then NaN else if js_lt b a then b else a)"

definition Math_max :: "jsnum \<Rightarrow> jsnum \<Rightarrow> jsnum" where
  "Math_max a b = (if a = NaN \<or> b = NaN then NaN else if js_lt a b then b else a)"

text \<open>
  \<open>Math.min(...xs)\<close> and \<open>Math.max(...xs)\<close>: of no arguments they are the positive
  and the negative infinity.
\<close>

definition Math_min_list :: "jsnum list \<Rightarrow> jsnum" where
  "Math_min_list xs = foldr Math_min xs PosInf"

definition Math_max_list :: "jsnum list \<Rightarrow> jsnum" where
  "Math_max_list xs = foldr Math_max xs NegInf"

text \<open>
  The relational operators \<open>a < b\<close> and \<open>a <= b\<close>, which are also \<open>b > a\<close> and
  \<open>b >= a\<close>: false when an operand is NaN; the two zeros are equal.
\<close>

definition js_less :: "jsnum \<Rightarrow> jsnum \<Rightarrow> bool" where
  "js_less a b =
     (a \<noteq> NaN \<and> b \<noteq> NaN \<and>
      (if a = NegInf then b \<noteq> NegInf
       else if b = NegInf then False
       else if a = PosInf then False
       else if b = PosInf then True
       else num_val a < num_val b))"

definition js_le :: "jsnum \<Rightarrow> jsnum \<Rightarrow> bool" where
  "js_le a b = (a \<noteq> NaN \<and> b \<noteq> NaN \<and> \<not> js_less b a)"

text \<open>\<open>ToIntegerOrInfinity\<close> on a finite number: truncation towards zero.\<close>

definition ToIntegerOrInfinity :: "jsnum \<Rightarrow> int" where
  "ToIntegerOrInfinity a = (if num_val a < 0 then \<lceil>num_val a\<rceil> else \<lfloor>num_val a\<rfloor>)"


section \<open>JavaScript dates\<close>

text \<open>
  A \<open>Date\<close> holds a time value: the milliseconds since the epoch, an integer of
  magnitude at most 8.64e15, or NaN, which makes it an Invalid Date (\<open>None\<close> here). The
  calendar functions below are the ones of the ECMAScript specification (Day,
  TimeWithinDay, DaysInYear, DayFromYear, TimeFromYear, YearFromTime, InLeapYear,
  MonthFromTime, DateFromTime, MakeDay, MakeDate, TimeClip, LocalTime, UTC).
\<close>

type_synonym Date = "int option"

definition msPerDay :: int where
  "msPerDay = 86400000"

definition Day :: "int \<Rightarrow> int" where
  "Day t = t div msPerDay"

definition TimeWithinDay :: "int \<Rightarrow> int" where
  "TimeWithinDay t = t mod msPerDay"

definition DaysInYear :: "int \<Rightarrow> int" where
  "DaysInYear y =
     (if y mod 4 \<noteq> 0 then 365
      else if y mod 100 \<noteq> 0 then 366
      else if y mod 400 \<noteq> 0 then 365
      else 366)"

definition DayFromYear :: "int \<Rightarrow> int" where
  "DayFromYear y =
     365 * (y - 1970) + (y - 1969) div 4 - (y - 1901) div 100 + (y - 1601) div 400"


text \<open>
  The specification defines \<open>YearFromTime t\<close> as the largest \<open>y\<close> with
  \<open>TimeFromYear y \<le> t\<close>. It is computed here from an estimate by the mean length of
  a year, corrected by at most one year; \<open>YearFromTime_largest\<close> below proves that the
  result is the year of the specification.
\<close>

definition YearFromDay :: "int \<Rightarrow> int" where
  "YearFromDay d =
     (let y = 1970 + (400 * d) div 146097
      in if d < DayFromYear y then y - 1
         else if DayFromYear (y + 1) \<le> d then y + 1
         else y)"

definition YearFromTime :: "int \<Rightarrow> int" where
  "YearFromTime t = YearFromDay (Day t)"

definition InLeapYear :: "int \<Rightarrow> int" where
  "InLeapYear t = (if DaysInYear (YearFromTime t) = 366 then 1 else 0)"

definition DayWithinYear :: "int \<Rightarrow> int" where
  "DayWithinYear t = Day t - DayFromYear (YearFromTime t)"

definition MonthFromDay :: "int \<Rightarrow> int \<Rightarrow> int" where
  "MonthFromDay leap d =
     (if d < 31 then 0
      else if d < 59 + leap then 1
      else if d < 90 + leap then 2
      else if d < 120 + leap then 3
      else if d < 151 + leap then 4
      else if d < 181 + leap then 5
      else if d < 212 + leap then 6
      else if d < 243 + leap then 7
      else if d < 273 + leap then 8
      else if d < 304 + leap then 9
      else if d < 334 + leap then 10
      else 11)"

definition MonthFromTime :: "int \<Rightarrow> int" where
  "MonthFromTime t = MonthFromDay (InLeapYear t) (DayWithinYear t)"

text \<open>The day within the year on which month \<open>m\<close> (0 to 11) starts.\<close>

definition MonthStart :: "int \<Rightarrow> int \<Rightarrow> int" where
  "MonthStart leap m =
     (if m = 0 then 0
      else if m = 1 then 31
      else if m = 2 then 59 + leap
      else if m = 3 then 90 + leap
      else if m = 4 then 120 + leap
      else if m = 5 then 151 + leap
      else if m = 6 then 181 + leap
      else if m = 7 then 212 + leap
      else if m = 8 then 243 + leap
      else if m = 9 then 273 + leap
      else if m = 10 then 304 + leap
      else 334 + leap)"

definition DateFromTime :: "int \<Rightarrow> int" where
  "DateFromTime t = DayWithinYear t - MonthStart (InLeapYear t) (MonthFromTime t) + 1"

text \<open>
  \<open>MakeDay\<close>: the day number of the first of the month, plus the date minus one. The
  date may lie outside the month (zero, negative, beyond its end): the day rolls over.
\<close>

definition MakeDay :: "int \<Rightarrow> int \<Rightarrow> int \<Rightarrow> int" where
  "MakeDay yr mo dt =
     (let ym = yr + mo div 12;
          mn = mo mod 12
      in DayFromYear ym + MonthStart (if DaysInYear ym = 366 then 1 else 0) mn + dt - 1)"

definition MakeDate :: "int \<Rightarrow> int \<Rightarrow> int" where
  "MakeDate d time = d * msPerDay + time"

text \<open>
  \<open>TimeClip\<close>: a time that is not finite or lies beyond 8.64e15 ms is NaN.
\<close>

definition TimeClip :: "jsnum \<Rightarrow> Date" where
  "TimeClip time =
     (if \<not> is_finite time then None
      else if \<bar>num_val time\<bar> > 8.64 * 10 ^ 15 then None
      else Some (ToIntegerOrInfinity time))"

text \<open>
  The time zone of the host. \<open>offsetAt t\<close> is the offset of local time from UTC, in
  milliseconds, at the instant \<open>t\<close>; \<open>offsetOfLocal t\<close> is the offset by which the
  local time \<open>t\<close> is read back as an instant (for a local time that a clock change
  repeats or skips, the offset before the change).
\<close>

record TimeZone =
  offsetAt :: "int \<Rightarrow> int"
  offsetOfLocal :: "int \<Rightarrow> int"

definition LocalTime :: "TimeZone \<Rightarrow> int \<Rightarrow> int" where
  "LocalTime tz t = t + offsetAt tz t"

definition UTC :: "TimeZone \<Rightarrow> int \<Rightarrow> int" where
  "UTC tz t = t - offsetOfLocal tz t"

text \<open>A zone whose offset never changes; the offset 0 is UTC.\<close>

definition fixedZone :: "int \<Rightarrow> TimeZone" where
  "fixedZone c = \<lparr>offsetAt = (\<lambda>t. c), offsetOfLocal = (\<lambda>t. c)\<rparr>"

text \<open>The methods of a date: on an Invalid Date the getters return NaN.\<close>

definition getTime :: "Date \<Rightarrow> jsnum" where
  "getTime d = (case d of None \<Rightarrow> NaN | Some t \<Rightarrow> Fin (of_int t))"

definition getFullYear :: "TimeZone \<Rightarrow> Date \<Rightarrow> jsnum" where
  "getFullYear tz d =
     (case d of None \<Rightarrow> NaN | Some t \<Rightarrow> Fin (of_int (YearFromTime (LocalTime tz t))))"

definition getMonth :: "TimeZone \<Rightarrow> Date \<Rightarrow> jsnum" where
  "getMonth tz d =
     (case d of None \<Rightarrow> NaN | Some t \<Rightarrow> Fin (of_int (MonthFromTime (LocalTime tz t))))"

definition getDate :: "TimeZone \<Rightarrow> Date \<Rightarrow> jsnum" where
  "getDate tz d =
     (case d of None \<Rightarrow> NaN | Some t \<Rightarrow> Fin (of_int (DateFromTime (LocalTime tz t))))"

text \<open>
  \<open>date.setDate(dt)\<close>, the new value of the date: an Invalid Date stays invalid, a
  day that is not finite makes the date invalid, and otherwise the day of the month of
  the local time is replaced, the fraction of \<open>dt\<close> dropped, and the result is read
  back as an instant and clipped.
\<close>

definition setDate :: "TimeZone \<Rightarrow> Date \<Rightarrow> jsnum \<Rightarrow> Date" where
  "setDate tz d dt =
     (case d of
        None \<Rightarrow> None
      | Some t0 \<Rightarrow>
          if \<not> is_finite dt then None
          else
            let t = LocalTime tz t0;
                newDate = MakeDate (MakeDay (YearFromTime t) (MonthFromTime t)
                                      (ToIntegerOrInfinity dt))
                            (TimeWithinDay t)
            in TimeClip (Fin (of_int (UTC tz newDate))))"

text \<open>\<open>new Date(value)\<close> of a number.\<close>

definition newDateOfValue :: "jsnum \<Rightarrow> Date" where
  "newDateOfValue v = TimeClip v"

text \<open>
  \<open>new Date(yr, mo, dt)\<close>, local midnight of that day: a year from 0 to 99 stands for
  1900 plus that year.
\<close>

definition newDate :: "TimeZone \<Rightarrow> jsnum \<Rightarrow> int \<Rightarrow> int \<Rightarrow> Date" where
  "newDate tz yr mo dt =
     (if \<not> is_finite yr then None
      else
        let yi = ToIntegerOrInfinity yr;
            y = (if 0 \<le> yi \<and> yi \<le> 99 then 1900 + yi else yi)
        in TimeClip (Fin (of_int (UTC tz (MakeDate (MakeDay y mo dt) 0)))))"


section \<open>Data model\<close>

datatype GanttRelationshipType = FS | SS | FF | SF

record GanttTask =
  task_id :: string
  task_name :: string
  task_start :: Date
  task_end :: Date
  task_progress :: "real option"
  task_color :: "string option"
  task_dependencies :: "string list option"

record GanttRelationship =
  rel_id :: string
  sourceId :: string
  targetId :: string
  rel_type :: GanttRelationshipType
  rel_lag :: "real option"

text \<open>A \<open>Path2D\<close> is the list of the path commands issued on it.\<close>

datatype path_cmd =
  MoveTo jsnum real
| BezierCurveTo jsnum real jsnum real jsnum real

type_synonym Path2D = "path_cmd list"

record RelationshipLine =
  line_id :: string
  fromX :: jsnum
  fromY :: real
  toX :: jsnum
  toY :: real
  line_type :: GanttRelationshipType
  sourceTask :: GanttTask
  targetTask :: GanttTask
  line_lag :: "real option"
  path :: Path2D

record UnitWidthConfig =
  min_width :: real
  max_width :: real
  optimal :: real

record ThemeColors =
  backgroundColor :: string
  textColor :: string
  gridColor :: string
  barColor :: string
  barProgressColor :: string
  relationshipColors :: "GanttRelationshipType \<Rightarrow> string"

datatype ViewMode = day | week | month | year

datatype Theme = light | dark

text \<open>The canvas element: its pixel width, its cursor style and its bounding rectangle.\<close>

record Canvas =
  canvas_width :: nat
  cursor :: string
  rect_left :: real
  rect_top :: real

datatype TooltipContent =
  NoContent
| TaskContent string Date Date jsnum "real option"
| RelationshipContent GanttRelationshipType string string "real option"

text \<open>A tooltip element: \<open>style.display\<close>, \<open>innerHTML\<close>, \<open>style.left\<close>, \<open>style.top\<close>.\<close>

record Tooltip =
  display :: string
  innerHTML :: TooltipContent
  left_px :: "real option"
  top_px :: "real option"

record MouseEvent =
  clientX :: real
  clientY :: real

text \<open>
  What the browser supplies: the time zone, the width of the window, the laid-out width
  of the task tooltip and the stroke hit test of the drawing context.
\<close>

record Env =
  timeZone :: TimeZone
  innerWidth :: real
  offsetWidth :: real
  isPointInStroke :: "Path2D \<Rightarrow> real \<Rightarrow> real \<Rightarrow> bool"

text \<open>
  The fields of the component. The row and bar heights and the pointer coordinates are
  finite numbers. \<open>ctx\<close> tells whether the drawing context is present (not null).
  The pixels on the canvas are not modelled: \<open>repaints\<close> counts the times
  \<open>drawChart\<close> cleared and repainted it.
\<close>

record GanttViewComponent =
  tasks :: "GanttTask list"
  relationships :: "GanttRelationship list"
  viewMode :: ViewMode
  theme :: Theme
  rowHeight :: real
  barHeight :: real
  showTooltips :: bool
  showRelationships :: bool
  canvasRef :: "Canvas option"
  ctx :: bool
  startDate :: Date
  endDate :: Date
  relationshipLines :: "RelationshipLine list"
  hoveredRelationship :: "RelationshipLine option"
  relationshipTooltip :: "Tooltip option"
  tooltip :: "Tooltip option"
  hoveredTask :: "GanttTask option"
  repaints :: nat

definition headerHeight :: real where
  "headerHeight = 100"

fun UNIT_WIDTHS :: "ViewMode \<Rightarrow> UnitWidthConfig" where
  "UNIT_WIDTHS day = \<lparr>min_width = 20, max_width = 40, optimal = 30\<rparr>"
| "UNIT_WIDTHS week = \<lparr>min_width = 60, max_width = 120, optimal = 80\<rparr>"
| "UNIT_WIDTHS month = \<lparr>min_width = 80, max_width = 150, optimal = 100\<rparr>"
| "UNIT_WIDTHS year = \<lparr>min_width = 150, max_width = 300, optimal = 200\<rparr>"

fun light_relationshipColors :: "GanttRelationshipType \<Rightarrow> string" where
  "light_relationshipColors FS = ''#2196F3''"
| "light_relationshipColors SS = ''#4CAF50''"
| "light_relationshipColors FF = ''#FF9800''"
| "light_relationshipColors SF = ''#9C27B0''"

fun dark_relationshipColors :: "GanttRelationshipType \<Rightarrow> string" where
  "dark_relationshipColors FS = ''#64B5F6''"
| "dark_relationshipColors SS = ''#81C784''"
| "dark_relationshipColors FF = ''#FFB74D''"
| "dark_relationshipColors SF = ''#BA68C8''"

fun THEMES :: "Theme \<Rightarrow> ThemeColors" where
  "THEMES light =
     \<lparr>backgroundColor = ''#ffffff'', textColor = ''#333333'', gridColor = ''#e0e0e0'',
      barColor = ''#42a5f5'', barProgressColor = ''#1976d2'',
      relationshipColors = light_relationshipColors\<rparr>"
| "THEMES dark =
     \<lparr>backgroundColor = ''#2D3D43'', textColor = ''#ffffff'', gridColor = ''#404040'',
      barColor = ''#64b5f6'', barProgressColor = ''#42a5f5'',
      relationshipColors = dark_relationshipColors\<rparr>"


section \<open>Time axis\<close>

text \<open>\<open>getTotalDays\<close>: \<open>Math.ceil((endDate - startDate) / (1000 * 60 * 60 * 24))\<close>.\<close>

definition getTotalDays :: "GanttViewComponent \<Rightarrow> jsnum" where
  "getTotalDays st =
     Math_ceil (js_div (js_sub (getTime (endDate st)) (getTime (startDate st)))
                  (Fin (1000 * 60 * 60 * 24)))"

text \<open>
  The view mode is one of the four values of its type; the \<open>default\<close> branch of the
  switches on it, which repeats the day branch, is not reached.
\<close>

definition getTotalUnits :: "TimeZone \<Rightarrow> GanttViewComponent \<Rightarrow> jsnum" where
  "getTotalUnits tz st =
     (case viewMode st of
        day \<Rightarrow> getTotalDays st
      | week \<Rightarrow> Math_ceil (js_div (getTotalDays st) (Fin 7))
      | month \<Rightarrow>
          js_add
            (js_add
               (js_mul (js_sub (getFullYear tz (endDate st)) (getFullYear tz (startDate st)))
                  (Fin 12))
               (js_sub (getMonth tz (endDate st)) (getMonth tz (startDate st))))
            (Fin 1)
      | year \<Rightarrow>
          js_add (js_sub (getFullYear tz (endDate st)) (getFullYear tz (startDate st))) (Fin 1))"

text \<open>\<open>this.canvasRef?.nativeElement.width || 800\<close>: a missing canvas and a width of 0 give 800.\<close>

definition calculateCanvasWidth :: "GanttViewComponent \<Rightarrow> real" where
  "calculateCanvasWidth st =
     (case canvasRef st of
        None \<Rightarrow> 800
      | Some c \<Rightarrow> if canvas_width c = 0 then 800 else real (canvas_width c))"

definition getOptimalUnitWidth :: "TimeZone \<Rightarrow> GanttViewComponent \<Rightarrow> jsnum" where
  "getOptimalUnitWidth tz st =
     (let config = UNIT_WIDTHS (viewMode st);
          totalUnits = getTotalUnits tz st
      in Math_max (Fin (min_width config))
           (Math_min (Fin (max_width config))
              (js_div (Fin (calculateCanvasWidth st)) totalUnits)))"

text \<open>
  \<open>initializeDateRange\<close>; \<open>now\<close> is the time value of \<open>new Date()\<close>, which is
  never invalid. The padding is computed once, from the unpadded range, and is passed to
  \<open>setDate\<close> as it is.
\<close>

definition initializeDateRange :: "TimeZone \<Rightarrow> int \<Rightarrow> GanttViewComponent \<Rightarrow> GanttViewComponent" where
  "initializeDateRange tz now st =
     (if length (tasks st) = 0
      then st\<lparr>startDate := newDate tz (getFullYear tz (Some now)) 0 1,
              endDate := newDate tz (js_add (getFullYear tz (Some now)) (Fin 1)) 0 1\<rparr>
      else
        let starts = map (\<lambda>t. getTime (task_start t)) (tasks st);
            ends = map (\<lambda>t. getTime (task_end t)) (tasks st);
            st1 = st\<lparr>startDate := newDateOfValue (Math_min_list starts),
                     endDate := newDateOfValue (Math_max_list ends)\<rparr>;
            paddingDays = js_mul (getTotalDays st1) (Fin 0.05)
        in st1\<lparr>startDate :=
                  setDate tz (startDate st1) (js_sub (getDate tz (startDate st1)) paddingDays),
                endDate :=
                  setDate tz (endDate st1) (js_add (getDate tz (endDate st1)) paddingDays)\<rparr>)"


section \<open>Coordinates\<close>

definition getXPositionForDate :: "TimeZone \<Rightarrow> GanttViewComponent \<Rightarrow> Date \<Rightarrow> jsnum" where
  "getXPositionForDate tz st date =
     (let daysDiff = js_div (js_sub (getTime date) (getTime (startDate st)))
                       (Fin (1000 * 60 * 60 * 24));
          unitWidth = getOptimalUnitWidth tz st
      in case viewMode st of
           day \<Rightarrow> js_mul daysDiff unitWidth
         | week \<Rightarrow> js_mul (js_div daysDiff (Fin 7)) unitWidth
         | month \<Rightarrow>
             js_mul
               (js_add
                  (js_mul (js_sub (getFullYear tz date) (getFullYear tz (startDate st)))
                     (Fin 12))
                  (js_sub (getMonth tz date) (getMonth tz (startDate st))))
               unitWidth
         | year \<Rightarrow>
             js_mul (js_sub (getFullYear tz date) (getFullYear tz (startDate st))) unitWidth)"

text \<open>
  \<open>getTaskAtPosition\<close>. With a row height of 0 the quotient is an infinity or NaN, and
  the test of the row index fails.
\<close>

definition getTaskAtPosition ::
  "TimeZone \<Rightarrow> GanttViewComponent \<Rightarrow> real \<Rightarrow> real \<Rightarrow> GanttTask option" where
  "getTaskAtPosition tz st x y =
     (let startY = headerHeight
      in if y < startY then None
         else if rowHeight st = 0 then None
         else
           let rowIndex = \<lfloor>(y - startY) / rowHeight st\<rfloor>
           in if rowIndex \<ge> 0 \<and> rowIndex < int (length (tasks st))
              then
                let task = tasks st ! nat rowIndex;
                    taskStartX = getXPositionForDate tz st (task_start task);
                    taskEndX = getXPositionForDate tz st (task_end task)
                in if js_le taskStartX (Fin x) \<and> js_le (Fin x) taskEndX then Some task else None
              else None)"


section \<open>Relationship lines\<close>

text \<open>\<open>new Map(tasks.map(t => [t.id, t]))\<close>: of two tasks with one id the later one stays.\<close>

definition taskMap :: "GanttViewComponent \<Rightarrow> string \<Rightarrow> GanttTask option" where
  "taskMap st = map_of (rev (map (\<lambda>t. (task_id t, t)) (tasks st)))"

text \<open>\<open>findIndex\<close>: the first index whose element satisfies the test, \<open>None\<close> for -1.\<close>

fun findIndex :: "('a \<Rightarrow> bool) \<Rightarrow> 'a list \<Rightarrow> nat option" where
  "findIndex P [] = None"
| "findIndex P (x # xs) =
     (if P x then Some 0 else (case findIndex P xs of None \<Rightarrow> None | Some i \<Rightarrow> Some (Suc i)))"

definition createRelationshipPath :: "jsnum \<Rightarrow> real \<Rightarrow> jsnum \<Rightarrow> real \<Rightarrow> Path2D" where
  "createRelationshipPath fX fY tX tY =
     (let midX = js_div (js_add fX tX) (Fin 2)
      in [MoveTo fX fY, BezierCurveTo midX fY midX tY tX tY])"

text \<open>The body of the loop of \<open>calculateRelationshipLines\<close>: the line of one relationship, if any.\<close>

definition relationshipLine ::
  "TimeZone \<Rightarrow> GanttViewComponent \<Rightarrow> GanttRelationship \<Rightarrow> RelationshipLine option" where
  "relationshipLine tz st rel =
     (case taskMap st (sourceId rel) of
        None \<Rightarrow> None
      | Some source \<Rightarrow>
     (case taskMap st (targetId rel) of
        None \<Rightarrow> None
      | Some target \<Rightarrow>
     (case findIndex (\<lambda>t. task_id t = task_id source) (tasks st) of
        None \<Rightarrow> None
      | Some sourceIndex \<Rightarrow>
     (case findIndex (\<lambda>t. task_id t = task_id target) (tasks st) of
        None \<Rightarrow> None
      | Some targetIndex \<Rightarrow>
          let startY = headerHeight;
              fY = startY + real sourceIndex * rowHeight st + rowHeight st / 2;
              tY = startY + real targetIndex * rowHeight st + rowHeight st / 2;
              (fX, tX) =
                (case rel_type rel of
                   FS \<Rightarrow> (getXPositionForDate tz st (task_end source),
                          getXPositionForDate tz st (task_start target))
                 | SS \<Rightarrow> (getXPositionForDate tz st (task_start source),
                          getXPositionForDate tz st (task_start target))
                 | FF \<Rightarrow> (getXPositionForDate tz st (task_end source),
                          getXPositionForDate tz st (task_end target))
                 | SF \<Rightarrow> (getXPositionForDate tz st (task_start source),
                          getXPositionForDate tz st (task_end target)));
              tX' =
                (case rel_lag rel of
                   None \<Rightarrow> tX
                 | Some lag \<Rightarrow>
                     if lag \<noteq> 0
                     then js_add tX (js_mul (Fin lag) (getOptimalUnitWidth tz st))
                     else tX)
          in Some \<lparr>line_id = rel_id rel, fromX = fX, fromY = fY, toX = tX', toY = tY,
                   line_type = rel_type rel, sourceTask = source, targetTask = target,
                   line_lag = rel_lag rel,
                   path = createRelationshipPath fX fY tX' tY\<rparr>))))"

definition calculateRelationshipLines :: "TimeZone \<Rightarrow> GanttViewComponent \<Rightarrow> RelationshipLine list" where
  "calculateRelationshipLines tz st = List.map_filter (relationshipLine tz st) (relationships st)"


section \<open>Drawing\<close>

datatype canvas_text = Name string | Percent int

datatype canvas_op =
  SetFillStyle string
| SetFont string
| SetTextAlign string
| SetTextBaseline string
| FillRect jsnum real jsnum real
| FillText canvas_text jsnum real

text \<open>\<open>Math.round\<close> on a finite number.\<close>

definition Math_round :: "real \<Rightarrow> int" where
  "Math_round x = \<lfloor>x + 1 / 2\<rfloor>"

text \<open>The text drawn on a bar: \<open>name.length > 15 ? name.substring(0, 15) + '...' : name\<close>.\<close>

definition taskLabel :: "string \<Rightarrow> string" where
  "taskLabel name = (if length name > 15 then take 15 name @ ''...'' else name)"

text \<open>The body of the loop of \<open>drawTasks\<close>: the canvas operations for one task.\<close>

definition drawTask :: "TimeZone \<Rightarrow> GanttViewComponent \<Rightarrow> GanttTask \<Rightarrow> nat \<Rightarrow> canvas_op list" where
  "drawTask tz st task index =
     (let th = THEMES (theme st);
          y = headerHeight + real index * rowHeight st + (rowHeight st - barHeight st) / 2;
          startX = getXPositionForDate tz st (task_start task);
          endX = getXPositionForDate tz st (task_end task);
          width = Math_max (js_sub endX startX) (Fin 2)
      in [SetFillStyle (case task_color task of
                          None \<Rightarrow> barColor th
                        | Some c \<Rightarrow> if c = [] then barColor th else c),
          FillRect startX y width (barHeight st)]
         @ (case task_progress task of
              None \<Rightarrow> []
            | Some progress \<Rightarrow>
                if progress \<noteq> 0 \<and> progress > 0
                then [SetFillStyle (barProgressColor th),
                      FillRect startX y (js_div (js_mul width (Fin progress)) (Fin 100))
                        (barHeight st)]
                     @ (if js_less (Fin 40) width
                        then [SetFillStyle (textColor th), SetFont ''10px Arial'',
                              SetTextAlign ''center'', SetTextBaseline ''middle'',
                              FillText (Percent (Math_round progress))
                                (js_add startX (js_div width (Fin 2))) (y + barHeight st / 2)]
                        else [])
                else [])
         @ (if js_less (Fin 60) width
            then [SetFillStyle (textColor th), SetFont ''10px Arial'',
                  SetTextAlign ''left'', SetTextBaseline ''middle'',
                  FillText (Name (taskLabel (task_name task)))
                    (js_add startX (Fin 5)) (y + barHeight st / 2)]
            else []))"

definition drawTasks :: "TimeZone \<Rightarrow> GanttViewComponent \<Rightarrow> canvas_op list" where
  "drawTasks tz st =
     (if \<not> ctx st \<or> length (tasks st) = 0 then []
      else concat (map (\<lambda>(task, index). drawTask tz st task index)
                     (zip (tasks st) [0 ..< length (tasks st)])))"

text \<open>
  \<open>drawRelationships\<close> replaces the cached lines; without a drawing context or without
  relationships it returns early and the cache stays as it is.
\<close>

definition drawRelationships :: "TimeZone \<Rightarrow> GanttViewComponent \<Rightarrow> GanttViewComponent" where
  "drawRelationships tz st =
     (if \<not> ctx st \<or> length (relationships st) = 0 then st
      else st\<lparr>relationshipLines := calculateRelationshipLines tz st\<rparr>)"

definition drawChart :: "TimeZone \<Rightarrow> GanttViewComponent \<Rightarrow> GanttViewComponent" where
  "drawChart tz st =
     (if \<not> ctx st then st
      else
        let st1 = st\<lparr>repaints := repaints st + 1\<rparr>
        in if showRelationships st1 then drawRelationships tz st1 else st1)"


section \<open>Tooltips and pointer events\<close>

definition newTooltip :: Tooltip where
  "newTooltip = \<lparr>display = [], innerHTML = NoContent, left_px = None, top_px = None\<rparr>"

definition createTooltipElement :: "GanttViewComponent \<Rightarrow> GanttViewComponent" where
  "createTooltipElement st =
     (case tooltip st of Some t \<Rightarrow> st | None \<Rightarrow> st\<lparr>tooltip := Some newTooltip\<rparr>)"

definition createRelationshipTooltipElement :: "GanttViewComponent \<Rightarrow> GanttViewComponent" where
  "createRelationshipTooltipElement st =
     (case relationshipTooltip st of
        Some t \<Rightarrow> st
      | None \<Rightarrow> st\<lparr>relationshipTooltip := Some newTooltip\<rparr>)"

definition hideTooltip :: "GanttViewComponent \<Rightarrow> GanttViewComponent" where
  "hideTooltip st =
     (case tooltip st of
        None \<Rightarrow> st
      | Some t \<Rightarrow> st\<lparr>tooltip := Some (t\<lparr>display := ''none''\<rparr>)\<rparr>)"

definition hideRelationshipTooltip :: "GanttViewComponent \<Rightarrow> GanttViewComponent" where
  "hideRelationshipTooltip st =
     (case relationshipTooltip st of
        None \<Rightarrow> st
      | Some t \<Rightarrow> st\<lparr>relationshipTooltip := Some (t\<lparr>display := ''none''\<rparr>)\<rparr>)"

definition positionTooltip :: "Env \<Rightarrow> MouseEvent \<Rightarrow> GanttViewComponent \<Rightarrow> GanttViewComponent" where
  "positionTooltip env event st =
     (case tooltip st of
        None \<Rightarrow> st
      | Some t \<Rightarrow>
          let x = clientX event + 15;
              y = clientY event - 15;
              rightEdge = innerWidth env - offsetWidth env - 20
          in st\<lparr>tooltip := Some (t\<lparr>left_px := Some (min x rightEdge), top_px := Some y,
                                   display := ''block''\<rparr>)\<rparr>)"

text \<open>The progress shown in a tooltip: absent when the value is missing or 0.\<close>

definition truthy :: "real option \<Rightarrow> real option" where
  "truthy v = (case v of None \<Rightarrow> None | Some r \<Rightarrow> if r = 0 then None else Some r)"

definition showTooltip ::
  "Env \<Rightarrow> MouseEvent \<Rightarrow> GanttTask \<Rightarrow> GanttViewComponent \<Rightarrow> GanttViewComponent" where
  "showTooltip env event task st =
     (if \<not> showTooltips st \<or> hoveredTask st = Some task then st
      else
        let st1 = createTooltipElement (st\<lparr>hoveredTask := Some task\<rparr>)
        in case tooltip st1 of
             None \<Rightarrow> st1
           | Some t \<Rightarrow>
               let duration = Math_ceil (js_div (js_sub (getTime (task_end task))
                                                   (getTime (task_start task)))
                                           (Fin (1000 * 60 * 60 * 24)));
                   content = TaskContent (task_name task) (task_start task) (task_end task)
                               duration (truthy (task_progress task))
               in positionTooltip env event (st1\<lparr>tooltip := Some (t\<lparr>innerHTML := content\<rparr>)\<rparr>))"

definition showRelationshipTooltip ::
  "MouseEvent \<Rightarrow> RelationshipLine \<Rightarrow> GanttViewComponent \<Rightarrow> GanttViewComponent" where
  "showRelationshipTooltip event rel st =
     (let st1 = createRelationshipTooltipElement st
      in case relationshipTooltip st1 of
           None \<Rightarrow> st1
         | Some t \<Rightarrow>
             let content = RelationshipContent (line_type rel) (task_name (sourceTask rel))
                             (task_name (targetTask rel)) (truthy (line_lag rel));
                 x = clientX event + 15;
                 y = clientY event - 15
             in st1\<lparr>relationshipTooltip :=
                      Some (t\<lparr>innerHTML := content, left_px := Some x, top_px := Some y\<rparr>)\<rparr>)"

text \<open>\<open>canvas.style.cursor = c\<close>; the callers run only when the canvas is present.\<close>

definition setCursor :: "string \<Rightarrow> GanttViewComponent \<Rightarrow> GanttViewComponent" where
  "setCursor c st =
     (case canvasRef st of
        None \<Rightarrow> st
      | Some canvas \<Rightarrow> st\<lparr>canvasRef := Some (canvas\<lparr>cursor := c\<rparr>)\<rparr>)"

text \<open>
  \<open>handleRelationshipHover\<close> tests the pointer against the cached lines, the ones the
  last run of \<open>drawRelationships\<close> left, and only then redraws.
\<close>

definition handleRelationshipHover ::
  "Env \<Rightarrow> MouseEvent \<Rightarrow> real \<Rightarrow> real \<Rightarrow> GanttViewComponent \<Rightarrow> GanttViewComponent" where
  "handleRelationshipHover env event x y st =
     (if \<not> showRelationships st \<or> \<not> showTooltips st then st
      else
        case (if ctx st
              then List.find (\<lambda>line. isPointInStroke env (path line) x y) (relationshipLines st)
              else None) of
          Some hovered \<Rightarrow>
            setCursor ''pointer''
              (showRelationshipTooltip event hovered
                 (drawChart (timeZone env) (st\<lparr>hoveredRelationship := Some hovered\<rparr>)))
        | None \<Rightarrow>
            hideRelationshipTooltip
              (if hoveredRelationship st \<noteq> None
               then drawChart (timeZone env) (st\<lparr>hoveredRelationship := None\<rparr>)
               else st))"

definition handleTaskHover ::
  "Env \<Rightarrow> MouseEvent \<Rightarrow> real \<Rightarrow> real \<Rightarrow> GanttViewComponent \<Rightarrow> GanttViewComponent" where
  "handleTaskHover env event x y st =
     (if \<not> showTooltips st then st
      else
        case getTaskAtPosition (timeZone env) st x y of
          Some hovered \<Rightarrow> setCursor ''pointer'' (showTooltip env event hovered st)
        | None \<Rightarrow> setCursor ''default'' (hideTooltip st))"

definition getMousePosition :: "MouseEvent \<Rightarrow> Canvas \<Rightarrow> real \<times> real" where
  "getMousePosition event canvas =
     (clientX event - rect_left canvas, clientY event - rect_top canvas)"

definition onMouseMove :: "Env \<Rightarrow> MouseEvent \<Rightarrow> GanttViewComponent \<Rightarrow> GanttViewComponent" where
  "onMouseMove env event st =
     (case canvasRef st of
        None \<Rightarrow> st
      | Some canvas \<Rightarrow>
          let (x, y) = getMousePosition event canvas
          in handleTaskHover env event x y (handleRelationshipHover env event x y st))"



section \<open>Example charts\<close>

text \<open>
  The component as its field initialisers leave it: no tasks, the day view, rows of 40 and
  bars of 20 pixels, no canvas attached and no drawing context. The date range is unset
  until \<open>initializeDateRange\<close> runs; it is the epoch here.
\<close>

definition initialComponent :: GanttViewComponent where
  "initialComponent =
     \<lparr>tasks = [], relationships = [], viewMode = day, theme = light,
      rowHeight = 40, barHeight = 20, showTooltips = True, showRelationships = True,
      canvasRef = None, ctx = False, startDate = Some 0, endDate = Some 0,
      relationshipLines = [], hoveredRelationship = None,
      relationshipTooltip = None, tooltip = None, hoveredTask = None, repaints = 0\<rparr>"

text \<open>
  Two tasks in January 2024 (time values in UTC): A from the 1st to the 10th, the task of
  the padding scenario, and B from the 13th to the 21st; a relationship from A to B with
  a lag of 2, and one whose target task does not exist.
\<close>

definition taskA :: GanttTask where
  "taskA =
     \<lparr>task_id = ''A'', task_name = ''Implement authentication module'',
      task_start = Some 1704067200000, task_end = Some 1704844800000,
      task_progress = Some 50, task_color = None, task_dependencies = None\<rparr>"

definition taskB :: GanttTask where
  "taskB =
     \<lparr>task_id = ''B'', task_name = ''Write tests'',
      task_start = Some 1705104000000, task_end = Some 1705795200000,
      task_progress = None, task_color = None, task_dependencies = Some [''A'']\<rparr>"

definition relAB :: GanttRelationship where
  "relAB = \<lparr>rel_id = ''r1'', sourceId = ''A'', targetId = ''B'', rel_type = FS, rel_lag = Some 2\<rparr>"

definition relDangling :: GanttRelationship where
  "relDangling =
     \<lparr>rel_id = ''r2'', sourceId = ''A'', targetId = ''Z'', rel_type = SS, rel_lag = None\<rparr>"

text \<open>
  A chart of the two tasks on a canvas of 900 pixels, with a range of 30 days from the
  1st of January 2024: the unit width of the day view is 900 / 30 = 30.
\<close>

definition demoCanvas :: Canvas where
  "demoCanvas = \<lparr>canvas_width = 900, cursor = ''pointer'', rect_left = 0, rect_top = 0\<rparr>"

definition demoComponent :: GanttViewComponent where
  "demoComponent =
     initialComponent\<lparr>tasks := [taskA, taskB], relationships := [relAB, relDangling],
       canvasRef := Some demoCanvas, ctx := True,
       startDate := Some 1704067200000, endDate := Some 1706659200000\<rparr>"

text \<open>The line of the relationship from A to B on that chart.\<close>

definition lineAB :: RelationshipLine where
  "lineAB =
     \<lparr>line_id = ''r1'', fromX = Fin 270, fromY = 120, toX = Fin 420, toY = 160,
      line_type = FS, sourceTask = taskA, targetTask = taskB, line_lag = Some 2,
      path = [MoveTo (Fin 270) 120, BezierCurveTo (Fin 345) 120 (Fin 345) 160 (Fin 420) 160]\<rparr>"

text \<open>
  A task of no duration; a task that ends twelve hours before it starts; a task whose
  start is an Invalid Date; and a task from the epoch to the last valid time value.
\<close>

definition milestoneTask :: GanttTask where
  "milestoneTask =
     \<lparr>task_id = ''M'', task_name = ''Release'',
      task_start = Some 1704067200000, task_end = Some 1704067200000,
      task_progress = None, task_color = None, task_dependencies = None\<rparr>"

definition invertedTask :: GanttTask where
  "invertedTask =
     \<lparr>task_id = ''I'', task_name = ''Ends before it starts'',
      task_start = Some 1704153600000, task_end = Some 1704110400000,
      task_progress = None, task_color = None, task_dependencies = None\<rparr>"

definition invalidTask :: GanttTask where
  "invalidTask =
     \<lparr>task_id = ''N'', task_name = ''No start date'',
      task_start = None, task_end = Some 1704844800000,
      task_progress = None, task_color = None, task_dependencies = None\<rparr>"

definition farTask :: GanttTask where
  "farTask =
     \<lparr>task_id = ''F'', task_name = ''Until the end of time'',
      task_start = Some 0, task_end = Some 8640000000000000,
      task_progress = None, task_color = None, task_dependencies = None\<rparr>"

text \<open>The chart while the pointer is over the line and over task A, both tooltips shown.\<close>

definition demoTooltip :: Tooltip where
  "demoTooltip =
     \<lparr>display = ''block'', innerHTML = NoContent, left_px = Some 25, top_px = Some 105\<rparr>"

definition hoveringComponent :: GanttViewComponent where
  "hoveringComponent =
     demoComponent\<lparr>relationshipLines := [lineAB], hoveredRelationship := Some lineAB,
       relationshipTooltip := Some demoTooltip, tooltip := Some demoTooltip,
       hoveredTask := Some taskA\<rparr>"

text \<open>
  A host in UTC with a window of 1280 pixels, whose stroke hit test accepts every point,
  and a pointer event.
\<close>

definition demoEnv :: Env where
  "demoEnv =
     \<lparr>timeZone = fixedZone 0, innerWidth = 1280, offsetWidth = 200,
      isPointInStroke = (\<lambda>p x y. True)\<rparr>"

definition demoEvent :: MouseEvent where
  "demoEvent = \<lparr>clientX = 100, clientY = 110\<rparr>"

text \<open>A pointer event at the point where the line from task A to task B starts.\<close>

definition lineEvent :: MouseEvent where
  "lineEvent = \<lparr>clientX = 270, clientY = 120\<rparr>"

text \<open>
  The chart after a draw pass, with task B then removed from the task list by the host
  and nothing drawn since.
\<close>

definition staleComponent :: GanttViewComponent where
  "staleComponent = (drawChart (fixedZone 0) demoComponent)\<lparr>tasks := [taskA]\<rparr>"

text \<open>
  A zone that sets its clocks back by one hour at 00:01 local time on the 1st of November
  2009, an instant that is 02:31 UTC (as Newfoundland did): the offset is -2:30 before and
  -3:30 after, and the repeated local hour is read with the offset before the change. A
  month view whose range starts in the middle of October 2009 in that zone.
\<close>

definition setBackZone :: TimeZone where
  "setBackZone =
     \<lparr>offsetAt = (\<lambda>t. if t < 1257042660000 then - 9000000 else - 12600000),
      offsetOfLocal = (\<lambda>t. if t < 1257042660000 - 9000000 then - 9000000 else - 12600000)\<rparr>"

definition autumnComponent :: GanttViewComponent where
  "autumnComponent =
     initialComponent\<lparr>viewMode := month,
       startDate := Some 1255564800000, endDate := Some 1258243200000\<rparr>"


section \<open>Facts on the calendar\<close>

subsection \<open>Integer division\<close>

lemma div_lower: "0 < n \<Longrightarrow> n * ((x::int) div n) \<le> x"
  by (metis mult_div_mod_eq add.commute le_add_same_cancel2 pos_mod_sign)

lemma div_upper: "0 < n \<Longrightarrow> (x::int) < n * (x div n) + n"
  using pos_mod_bound[of n x] mult_div_mod_eq[of n x] by (metis add_strict_left_mono)

lemma div_step_lower: "0 < n \<Longrightarrow> (x::int) div n \<le> (x + 1) div n"
  by (rule zdiv_mono1) simp_all

lemma div_step_upper: "0 < n \<Longrightarrow> ((x::int) + 1) div n \<le> x div n + 1"
proof -
  assume n: "0 < n"
  have "(x + 1) div n \<le> (x + n) div n" using n by (intro zdiv_mono1) simp_all
  also have "\<dots> = x div n + 1" using n by simp
  finally show ?thesis .
qed

lemma div_step_cases: "0 < n \<Longrightarrow> ((x::int) + 1) div n = x div n \<or> (x + 1) div n = x div n + 1"
  using div_step_lower[of n x] div_step_upper[of n x] by linarith

subsection \<open>Years\<close>

lemma div100_as_div4: "((x::int) + 68) div 100 = (x div 4 + 17) div 25"
proof -
  have "(x + 68) div 100 = ((x + 17 * 4) div 4) div 25"
    using zdiv_zmult2_eq[of 25 "x + 68" 4] by simp
  also have "(x + 17 * 4) div 4 = x div 4 + 17"
    by simp
  finally show ?thesis .
qed

lemma div400_as_div100: "((x::int) + 300) div 400 = (x div 100 + 3) div 4"
proof -
  have "(x + 300) div 400 = ((x + 3 * 100) div 100) div 4"
    using zdiv_zmult2_eq[of 4 "x + 300" 100] by simp
  also have "(x + 3 * 100) div 100 = x div 100 + 3"
    by simp
  finally show ?thesis .
qed

lemma DayFromYear_alt:
  "DayFromYear y =
     365 * (y - 1970) + (y - 1969) div 4 - ((y - 1969) div 4 + 17) div 25
       + (((y - 1969) div 4 + 17) div 25 + 3) div 4"
proof -
  have b: "(y - 1901) div 100 = ((y - 1969) div 4 + 17) div 25"
    using div100_as_div4[of "y - 1969"] by simp
  have c: "(y - 1601) div 400 = ((y - 1901) div 100 + 3) div 4"
    using div400_as_div100[of "y - 1901"] by simp
  show ?thesis unfolding DayFromYear_def c b ..
qed

lemma DayFromYear_step:
  "DayFromYear y + 365 \<le> DayFromYear (y + 1) \<and> DayFromYear (y + 1) \<le> DayFromYear y + 366"
proof -
  define a where "a = (y - 1969) div 4"
  define a' where "a' = (y + 1 - 1969) div 4"
  define b where "b = (a + 17) div 25"
  define b' where "b' = (a' + 17) div 25"
  define c where "c = (b + 3) div 4"
  define c' where "c' = (b' + 3) div 4"
  have a: "a' = a \<or> a' = a + 1"
    using div_step_cases[of 4 "y - 1969"] unfolding a_def a'_def by (simp add: algebra_simps)
  have b: "b' = b \<or> (a' = a + 1 \<and> b' = b + 1)"
    using a div_step_cases[of 25 "a + 17"] unfolding b_def b'_def by (auto simp: algebra_simps)
  have c: "c' = c \<or> (b' = b + 1 \<and> c' = c + 1)"
    using b div_step_cases[of 4 "b + 3"] unfolding c_def c'_def by (auto simp: algebra_simps)
  have 1: "DayFromYear y = 365 * (y - 1970) + a - b + c"
    unfolding DayFromYear_alt a_def b_def c_def ..
  have 2: "DayFromYear (y + 1) = 365 * (y + 1 - 1970) + a' - b' + c'"
    unfolding DayFromYear_alt a'_def b'_def c'_def ..
  show ?thesis using a b c unfolding 1 2 by auto
qed

lemma DayFromYear_less_Suc: "DayFromYear y < DayFromYear (y + 1)"
  using DayFromYear_step[of y] by linarith

lemma DayFromYear_mono: "y \<le> z \<Longrightarrow> DayFromYear y \<le> DayFromYear z"
proof (induction z rule: int_ge_induct)
  case base
  show ?case by simp
next
  case (step i)
  then show ?case using DayFromYear_less_Suc[of i] by linarith
qed

lemma DayFromYear_strict_mono: "y < z \<Longrightarrow> DayFromYear y < DayFromYear z"
  using DayFromYear_mono[of "y + 1" z] DayFromYear_less_Suc[of y] by linarith

lemma DayFromYear_arith_lower:
  fixes a b c Y :: int
  assumes "Y + 1 \<le> 4 * a + 3" and "100 * b \<le> Y + 69" and "Y + 369 \<le> 400 * c + 399"
  shows "146097 * Y - 506 \<le> 400 * (365 * Y + a - b + c)"
proof -
  have 1: "100 * Y - 200 \<le> 400 * a" using assms(1) by linarith
  have 2: "400 * b \<le> 4 * Y + 276" using assms(2) by linarith
  have 3: "Y - 30 \<le> 400 * c" using assms(3) by linarith
  have "400 * (365 * Y + a - b + c) = 146000 * Y + 400 * a - 400 * b + 400 * c"
    by (simp add: algebra_simps)
  with 1 2 3 show ?thesis by linarith
qed

lemma DayFromYear_arith_upper:
  fixes a b c Y :: int
  assumes "4 * a \<le> Y + 1" and "Y + 69 \<le> 100 * b + 99" and "400 * c \<le> Y + 369"
  shows "400 * (365 * Y + a - b + c) \<le> 146097 * Y + 589"
proof -
  have 1: "400 * a \<le> 100 * Y + 100" using assms(1) by linarith
  have 2: "4 * Y - 120 \<le> 400 * b" using assms(2) by linarith
  have 3: "400 * c \<le> Y + 369" using assms(3) by linarith
  have "400 * (365 * Y + a - b + c) = 146000 * Y + 400 * a - 400 * b + 400 * c"
    by (simp add: algebra_simps)
  with 1 2 3 show ?thesis by linarith
qed

lemma DayFromYear_lower: "146097 * (y - 1970) - 506 \<le> 400 * DayFromYear y"
proof -
  have 1: "y - 1970 + 1 \<le> 4 * ((y - 1969) div 4) + 3"
    using div_upper[of 4 "y - 1969"] by linarith
  have 2: "100 * ((y - 1901) div 100) \<le> y - 1970 + 69"
    using div_lower[of 100 "y - 1901"] by linarith
  have 3: "y - 1970 + 369 \<le> 400 * ((y - 1601) div 400) + 399"
    using div_upper[of 400 "y - 1601"] by linarith
  show ?thesis unfolding DayFromYear_def by (rule DayFromYear_arith_lower[OF 1 2 3])
qed

lemma DayFromYear_upper: "400 * DayFromYear y \<le> 146097 * (y - 1970) + 589"
proof -
  have 1: "4 * ((y - 1969) div 4) \<le> y - 1970 + 1"
    using div_lower[of 4 "y - 1969"] by linarith
  have 2: "y - 1970 + 69 \<le> 100 * ((y - 1901) div 100) + 99"
    using div_upper[of 100 "y - 1901"] by linarith
  have 3: "400 * ((y - 1601) div 400) \<le> y - 1970 + 369"
    using div_lower[of 400 "y - 1601"] by linarith
  show ?thesis unfolding DayFromYear_def by (rule DayFromYear_arith_upper[OF 1 2 3])
qed

lemma YearFromDay_bounds:
  "DayFromYear (YearFromDay d) \<le> d \<and> d < DayFromYear (YearFromDay d + 1)"
proof -
  define E where "E = (400 * d) div 146097"
  have E1: "146097 * E \<le> 400 * d" unfolding E_def by (rule div_lower) simp
  have E2: "400 * d < 146097 * E + 146097" unfolding E_def by (rule div_upper) simp
  have "400 * DayFromYear (1970 + E - 1) \<le> 146097 * E - 145508"
    using DayFromYear_upper[of "1970 + E - 1"] by (simp add: algebra_simps)
  then have "400 * DayFromYear (1970 + E - 1) \<le> 400 * d"
    using E1 by linarith
  then have lo: "DayFromYear (1970 + E - 1) \<le> d"
    by simp
  have "146097 * E + 291688 \<le> 400 * DayFromYear (1970 + E + 2)"
    using DayFromYear_lower[of "1970 + E + 2"] by (simp add: algebra_simps)
  then have "400 * d < 400 * DayFromYear (1970 + E + 2)"
    using E2 by linarith
  then have hi: "d < DayFromYear (1970 + E + 2)"
    by simp
  have hi': "d < DayFromYear (1970 + E + 1 + 1)"
    using hi by (simp add: algebra_simps)
  show ?thesis
    unfolding YearFromDay_def E_def[symmetric] Let_def
    using lo hi' by auto
qed


lemma YearFromDay_mono: "d1 \<le> d2 \<Longrightarrow> YearFromDay d1 \<le> YearFromDay d2"
proof (rule ccontr)
  assume le: "d1 \<le> d2" and "\<not> YearFromDay d1 \<le> YearFromDay d2"
  then have "YearFromDay d2 + 1 \<le> YearFromDay d1" by simp
  then have "DayFromYear (YearFromDay d2 + 1) \<le> DayFromYear (YearFromDay d1)"
    by (rule DayFromYear_mono)
  with YearFromDay_bounds[of d1] YearFromDay_bounds[of d2] le show False by linarith
qed

lemma Day_mono: "t1 \<le> t2 \<Longrightarrow> Day t1 \<le> Day t2"
  unfolding Day_def msPerDay_def by (rule zdiv_mono1) simp_all

lemma YearFromTime_mono: "t1 \<le> t2 \<Longrightarrow> YearFromTime t1 \<le> YearFromTime t2"
  unfolding YearFromTime_def by (intro YearFromDay_mono Day_mono)






subsection \<open>Months and dates\<close>

lemma MonthFromDay_bounds: "0 \<le> MonthFromDay l d \<and> MonthFromDay l d \<le> 11"
  unfolding MonthFromDay_def by simp

lemma MonthFromDay_mono: "d1 \<le> d2 \<Longrightarrow> MonthFromDay l d1 \<le> MonthFromDay l d2"
  unfolding MonthFromDay_def by (simp split: if_splits)

lemma MonthFromTime_bounds: "0 \<le> MonthFromTime t \<and> MonthFromTime t \<le> 11"
  unfolding MonthFromTime_def by (rule MonthFromDay_bounds)

lemma month_index_mono:
  assumes "t1 \<le> t2"
  shows "YearFromTime t1 * 12 + MonthFromTime t1 \<le> YearFromTime t2 * 12 + MonthFromTime t2"
proof (cases "YearFromTime t1 = YearFromTime t2")
  case True
  have "DayWithinYear t1 \<le> DayWithinYear t2"
    unfolding DayWithinYear_def True using Day_mono[OF assms] by simp
  then have "MonthFromTime t1 \<le> MonthFromTime t2"
    unfolding MonthFromTime_def InLeapYear_def True by (rule MonthFromDay_mono)
  with True show ?thesis by simp
next
  case False
  with YearFromTime_mono[OF assms] have "YearFromTime t1 + 1 \<le> YearFromTime t2" by simp
  with MonthFromTime_bounds[of t1] MonthFromTime_bounds[of t2] show ?thesis by linarith
qed

lemma Day_decomp: "Day t * msPerDay + TimeWithinDay t = t"
  unfolding Day_def TimeWithinDay_def by simp

lemma MakeDay_of_time:
  "MakeDay (YearFromTime t) (MonthFromTime t) k = Day t - DateFromTime t + k"
proof -
  have d: "MonthFromTime t div 12 = 0" and m: "MonthFromTime t mod 12 = MonthFromTime t"
    using MonthFromTime_bounds[of t] by simp_all
  show ?thesis
    unfolding MakeDay_def Let_def d m DateFromTime_def DayWithinYear_def InLeapYear_def
    by simp
qed

lemma ToIntegerOrInfinity_Fin:
  "ToIntegerOrInfinity (Fin x) = (if x < 0 then \<lceil>x\<rceil> else \<lfloor>x\<rfloor>)"
  by (simp add: ToIntegerOrInfinity_def)

lemma ToIntegerOrInfinity_of_int: "ToIntegerOrInfinity (Fin (of_int k)) = k"
  by (simp add: ToIntegerOrInfinity_def)

lemma TimeClip_of_int:
  "TimeClip (Fin (of_int t)) = (if \<bar>t\<bar> > 8640000000000000 then None else Some t)"
proof -
  have "(\<bar>real_of_int t\<bar> > 8.64 * 10 ^ 15) = (\<bar>t\<bar> > 8640000000000000)"
  proof -
    have "(8.64 * 10 ^ 15 :: real) = of_int 8640000000000000" by simp
    moreover have "\<bar>real_of_int t\<bar> = of_int \<bar>t\<bar>" by simp
    ultimately show ?thesis by (simp only: of_int_less_iff)
  qed
  then show ?thesis by (simp add: TimeClip_def ToIntegerOrInfinity_of_int)
qed

lemma setDate_eq:
  assumes "is_finite dt"
  shows "setDate tz (Some t0) dt =
           TimeClip (Fin (of_int (UTC tz (LocalTime tz t0
             + (ToIntegerOrInfinity dt - DateFromTime (LocalTime tz t0)) * msPerDay))))"
proof -
  have "MakeDate (MakeDay (YearFromTime (LocalTime tz t0)) (MonthFromTime (LocalTime tz t0))
                    (ToIntegerOrInfinity dt)) (TimeWithinDay (LocalTime tz t0))
      = (Day (LocalTime tz t0) * msPerDay + TimeWithinDay (LocalTime tz t0))
        + (ToIntegerOrInfinity dt - DateFromTime (LocalTime tz t0)) * msPerDay"
    unfolding MakeDate_def MakeDay_of_time by (simp add: algebra_simps)
  then show ?thesis using assms unfolding setDate_def Let_def Day_decomp by simp
qed

lemma fixedZone_simps:
  "LocalTime (fixedZone c) t = t + c" "UTC (fixedZone c) t = t - c"
  by (simp_all add: LocalTime_def UTC_def fixedZone_def)

lemma setDate_fixedZone:
  assumes "is_finite dt"
  shows "setDate (fixedZone c) (Some t0) dt =
           TimeClip (Fin (of_int (t0 + (ToIntegerOrInfinity dt - DateFromTime (t0 + c)) * msPerDay)))"
  unfolding setDate_eq[OF assms] fixedZone_simps by (simp add: algebra_simps)



lemma MonthStart_MonthFromDay: "0 \<le> d \<Longrightarrow> 0 \<le> l \<Longrightarrow> MonthStart l (MonthFromDay l d) \<le> d"
  unfolding MonthStart_def MonthFromDay_def by simp

lemma DayWithinYear_nonneg: "0 \<le> DayWithinYear t"
  unfolding DayWithinYear_def YearFromTime_def using YearFromDay_bounds[of "Day t"] by simp

lemma DateFromTime_pos: "1 \<le> DateFromTime t"
proof -
  have "0 \<le> InLeapYear t" unfolding InLeapYear_def by simp
  from MonthStart_MonthFromDay[OF DayWithinYear_nonneg this]
  show ?thesis unfolding DateFromTime_def MonthFromTime_def by simp
qed

section \<open>Facts on numbers\<close>

lemma js_add_Fin: "js_add (Fin a) (Fin b) = Fin (a + b)"
  by (simp add: js_add_def)

lemma js_sub_Fin: "js_sub (Fin a) (Fin b) = Fin (a - b)"
  by (simp add: js_sub_def js_add_def)

lemma js_mul_Fin_pos: "0 < w \<Longrightarrow> js_mul (Fin x) (Fin w) = Fin (x * w)"
  by (simp add: js_mul_def signed_zero_def)

lemma js_mul_pos_Fin: "0 < w \<Longrightarrow> js_mul (Fin w) (Fin x) = Fin (w * x)"
  by (simp add: js_mul_def signed_zero_def)

lemma js_mul_NegZero_pos: "0 < w \<Longrightarrow> js_mul NegZero (Fin w) = NegZero"
  by (simp add: js_mul_def signed_zero_def)

lemma js_div_Fin_pos: "0 < c \<Longrightarrow> js_div (Fin x) (Fin c) = Fin (x / c)"
  by (simp add: js_div_def signed_zero_def)

lemma js_div_NegZero_pos: "0 < c \<Longrightarrow> js_div NegZero (Fin c) = NegZero"
  by (simp add: js_div_def signed_zero_def)

lemma js_div_pos_zero: "0 < c \<Longrightarrow> js_div (Fin c) (Fin 0) = PosInf"
  by (simp add: js_div_def signed_inf_def)

lemma js_div_pos_NegZero: "0 < c \<Longrightarrow> js_div (Fin c) NegZero = NegInf"
  by (simp add: js_div_def signed_inf_def)

lemma js_div_pos_not_NaN: "0 < c \<Longrightarrow> u \<noteq> NaN \<Longrightarrow> js_div (Fin c) u \<noteq> NaN"
  by (cases u) (auto simp: js_div_def signed_inf_def signed_zero_def)

lemma js_NaN:
  "js_add NaN b = NaN" "js_add a NaN = NaN" "js_sub NaN b = NaN" "js_sub a NaN = NaN"
  "js_mul NaN b = NaN" "js_mul a NaN = NaN" "js_div NaN b = NaN" "js_div a NaN = NaN"
  "Math_min NaN b = NaN" "Math_min a NaN = NaN" "Math_max NaN b = NaN" "Math_max a NaN = NaN"
  by (cases a; simp add: js_add_def js_sub_def js_mul_def js_div_def Math_min_def Math_max_def)+

lemma js_le_Fin: "js_le (Fin a) (Fin b) = (a \<le> b)"
  by (auto simp: js_le_def js_less_def)

lemma js_less_Fin: "js_less (Fin a) (Fin b) = (a < b)"
  by (simp add: js_less_def)

lemma js_le_not_NaN: "js_le a b \<Longrightarrow> a \<noteq> NaN \<and> b \<noteq> NaN"
  by (simp add: js_le_def)

lemma clamp_finite:
  assumes "q \<noteq> NaN" and "0 < lo \<and> lo \<le> hi"
  shows "\<exists>w. Math_max (Fin lo) (Math_min (Fin hi) q) = Fin w \<and> lo \<le> w \<and> w \<le> hi"
  using assms by (cases q) (auto simp: Math_max_def Math_min_def)

lemma clamp_PosInf: "lo \<le> hi \<Longrightarrow> Math_max (Fin lo) (Math_min (Fin hi) PosInf) = Fin hi"
  by (auto simp: Math_max_def Math_min_def)

lemma clamp_NegInf: "Math_max (Fin lo) (Math_min (Fin hi) NegInf) = Fin lo"
  by (auto simp: Math_max_def Math_min_def)

lemma Math_ceil_Fin_cases: "Math_ceil (Fin x) = NegZero \<or> Math_ceil (Fin x) = Fin (of_int \<lceil>x\<rceil>)"
  by simp

lemma Math_ceil_nonneg: "0 \<le> x \<Longrightarrow> Math_ceil (Fin x) = Fin (of_int \<lceil>x\<rceil>)"
  by simp

lemma ceiling_minus_half: "\<lceil>- (1 / 2) :: real\<rceil> = 0"
  by (simp add: ceiling_eq_iff)

section \<open>Facts on the time axis\<close>

lemma getTotalDays_valid:
  assumes "startDate st = Some s" and "endDate st = Some e"
  shows "getTotalDays st = Math_ceil (Fin (of_int (e - s) / 86400000))"
  unfolding getTotalDays_def using assms by (simp add: getTime_def js_sub_Fin js_div_Fin_pos)

lemma getTotalDays_invalid:
  assumes "startDate st = None \<or> endDate st = None"
  shows "getTotalDays st = NaN"
  unfolding getTotalDays_def using assms by (auto simp: getTime_def js_NaN)

lemma getTotalDays_cases:
  assumes "startDate st = Some s" and "endDate st = Some e"
  shows "getTotalDays st = NegZero \<or> (\<exists>r. getTotalDays st = Fin r)"
  unfolding getTotalDays_valid[OF assms] using Math_ceil_Fin_cases by blast

lemma getTotalDays_ordered:
  assumes "startDate st = Some s" and "endDate st = Some e" and "s \<le> e"
  shows "\<exists>r\<ge>0. getTotalDays st = Fin r"
proof -
  have x: "0 \<le> (of_int (e - s) / 86400000 :: real)" using assms(3) by simp
  then have "0 \<le> \<lceil>of_int (e - s) / (86400000 :: real)\<rceil>"
    by (simp add: ceiling_le_iff not_le less_ceiling_iff)
  then show ?thesis
    unfolding getTotalDays_valid[OF assms(1,2)] Math_ceil_nonneg[OF x] by simp
qed

lemma getTotalUnits_cases:
  assumes "startDate st = Some s" and "endDate st = Some e"
  shows "getTotalUnits tz st = NegZero \<or> (\<exists>r. getTotalUnits tz st = Fin r)"
proof (cases "viewMode st")
  case day
  then show ?thesis using getTotalDays_cases[OF assms] by (simp add: getTotalUnits_def)
next
  case week
  from getTotalDays_cases[OF assms] show ?thesis
  proof
    assume "getTotalDays st = NegZero"
    then show ?thesis using week by (simp add: getTotalUnits_def js_div_NegZero_pos)
  next
    assume "\<exists>r. getTotalDays st = Fin r"
    then obtain r where "getTotalDays st = Fin r" ..
    then show ?thesis using week Math_ceil_Fin_cases[of "r / 7"]
      by (auto simp add: getTotalUnits_def js_div_Fin_pos simp del: Math_ceil.simps)
  qed
next
  case month
  then show ?thesis using assms
    by (simp add: getTotalUnits_def getFullYear_def getMonth_def js_sub_Fin js_add_Fin
        js_mul_Fin_pos)
next
  case year
  then show ?thesis using assms
    by (simp add: getTotalUnits_def getFullYear_def js_sub_Fin js_add_Fin)
qed

lemma getTotalUnits_invalid:
  assumes "startDate st = None \<or> endDate st = None"
  shows "getTotalUnits tz st = NaN"
proof (cases "viewMode st")
  case day
  then show ?thesis using getTotalDays_invalid[OF assms] by (simp add: getTotalUnits_def)
next
  case week
  then show ?thesis using getTotalDays_invalid[OF assms] by (simp add: getTotalUnits_def js_NaN)
next
  case month
  then show ?thesis using assms
    by (auto simp: getTotalUnits_def getFullYear_def getMonth_def js_NaN)
next
  case year
  then show ?thesis using assms
    by (auto simp: getTotalUnits_def getFullYear_def js_NaN)
qed

lemma getTotalUnits_ordered:
  assumes "startDate st = Some s" and "endDate st = Some e" and "s \<le> e"
  shows "getTotalUnits tz st \<noteq> NegZero"
proof (cases "viewMode st")
  case day
  then show ?thesis using getTotalDays_ordered[OF assms] by (auto simp: getTotalUnits_def)
next
  case week
  from getTotalDays_ordered[OF assms] obtain r where r: "0 \<le> r" "getTotalDays st = Fin r" by blast
  then have "0 \<le> r / 7" by simp
  then show ?thesis using week r
    by (auto simp: getTotalUnits_def js_div_Fin_pos)
next
  case month
  then show ?thesis using assms
    by (simp add: getTotalUnits_def getFullYear_def getMonth_def js_sub_Fin js_add_Fin
        js_mul_Fin_pos)
next
  case year
  then show ?thesis using assms
    by (simp add: getTotalUnits_def getFullYear_def js_sub_Fin js_add_Fin)
qed

lemma calculateCanvasWidth_pos: "0 < calculateCanvasWidth st"
  unfolding calculateCanvasWidth_def by (simp split: option.splits)

lemma UNIT_WIDTHS_ordered:
  "0 < min_width (UNIT_WIDTHS v) \<and> min_width (UNIT_WIDTHS v) \<le> max_width (UNIT_WIDTHS v)"
  by (cases v) simp_all

lemma getOptimalUnitWidth_finite:
  assumes "startDate st = Some s" and "endDate st = Some e"
  shows "\<exists>w. getOptimalUnitWidth tz st = Fin w \<and> min_width (UNIT_WIDTHS (viewMode st)) \<le> w
           \<and> w \<le> max_width (UNIT_WIDTHS (viewMode st))"
proof -
  have "getTotalUnits tz st \<noteq> NaN" using getTotalUnits_cases[OF assms, of tz] by auto
  then have "js_div (Fin (calculateCanvasWidth st)) (getTotalUnits tz st) \<noteq> NaN"
    by (rule js_div_pos_not_NaN[OF calculateCanvasWidth_pos])
  from clamp_finite[OF this] UNIT_WIDTHS_ordered[of "viewMode st"]
  show ?thesis unfolding getOptimalUnitWidth_def Let_def by blast
qed

lemma getOptimalUnitWidth_invalid:
  assumes "startDate st = None \<or> endDate st = None"
  shows "getOptimalUnitWidth tz st = NaN"
  unfolding getOptimalUnitWidth_def Let_def getTotalUnits_invalid[OF assms] by (simp add: js_NaN)

lemma unitWidth_pos:
  assumes "startDate st = Some s" and "endDate st = Some e"
  shows "\<exists>w>0. getOptimalUnitWidth tz st = Fin w"
  using getOptimalUnitWidth_finite[OF assms, of tz] UNIT_WIDTHS_ordered[of "viewMode st"]
  by force

lemma getOptimalUnitWidth_zero:
  "getTotalUnits tz st = Fin 0 \<Longrightarrow>
   getOptimalUnitWidth tz st = Fin (max_width (UNIT_WIDTHS (viewMode st)))"
  unfolding getOptimalUnitWidth_def Let_def
  using UNIT_WIDTHS_ordered[of "viewMode st"]
  by (simp add: js_div_pos_zero[OF calculateCanvasWidth_pos] clamp_PosInf)

lemma getOptimalUnitWidth_NegZero:
  "getTotalUnits tz st = NegZero \<Longrightarrow>
   getOptimalUnitWidth tz st = Fin (min_width (UNIT_WIDTHS (viewMode st)))"
  unfolding getOptimalUnitWidth_def Let_def
  by (simp add: js_div_pos_NegZero[OF calculateCanvasWidth_pos] clamp_NegInf)

section \<open>Facts on coordinates\<close>

lemma getXPositionForDate_valid:
  assumes "startDate st = Some s" and "getOptimalUnitWidth tz st = Fin w" and "0 < w"
  shows "getXPositionForDate tz st (Some d) =
     Fin ((case viewMode st of
             day \<Rightarrow> of_int (d - s) / 86400000
           | week \<Rightarrow> of_int (d - s) / 86400000 / 7
           | month \<Rightarrow>
               of_int ((YearFromTime (LocalTime tz d) - YearFromTime (LocalTime tz s)) * 12
                       + (MonthFromTime (LocalTime tz d) - MonthFromTime (LocalTime tz s)))
           | year \<Rightarrow> of_int (YearFromTime (LocalTime tz d) - YearFromTime (LocalTime tz s))) * w)"
  using assms
  by (cases "viewMode st")
    (simp_all add: getXPositionForDate_def getTime_def getFullYear_def getMonth_def js_sub_Fin
      js_add_Fin js_div_Fin_pos js_mul_Fin_pos)

section \<open>The example charts, evaluated\<close>

lemma initial_fields:
  "tasks initialComponent = []" "relationships initialComponent = []"
  "viewMode initialComponent = day" "theme initialComponent = light"
  "rowHeight initialComponent = 40" "barHeight initialComponent = 20"
  "showTooltips initialComponent = True" "showRelationships initialComponent = True"
  "canvasRef initialComponent = None" "ctx initialComponent = False"
  "relationshipLines initialComponent = []" "hoveredRelationship initialComponent = None"
  "relationshipTooltip initialComponent = None" "tooltip initialComponent = None"
  "hoveredTask initialComponent = None" "repaints initialComponent = 0"
  by (simp_all add: initialComponent_def)

lemma demo_fields:
  "tasks demoComponent = [taskA, taskB]" "relationships demoComponent = [relAB, relDangling]"
  "viewMode demoComponent = day" "theme demoComponent = light"
  "rowHeight demoComponent = 40" "barHeight demoComponent = 20"
  "showTooltips demoComponent = True" "showRelationships demoComponent = True"
  "canvasRef demoComponent = Some demoCanvas" "ctx demoComponent = True"
  "startDate demoComponent = Some 1704067200000" "endDate demoComponent = Some 1706659200000"
  "relationshipLines demoComponent = []" "hoveredRelationship demoComponent = None"
  "relationshipTooltip demoComponent = None" "tooltip demoComponent = None"
  "hoveredTask demoComponent = None" "repaints demoComponent = 0"
  by (simp_all add: demoComponent_def initial_fields)

lemma task_fields:
  "task_id taskA = ''A''" "task_name taskA = ''Implement authentication module''"
  "task_start taskA = Some 1704067200000" "task_end taskA = Some 1704844800000"
  "task_progress taskA = Some 50" "task_color taskA = None"
  "task_id taskB = ''B''" "task_name taskB = ''Write tests''"
  "task_start taskB = Some 1705104000000" "task_end taskB = Some 1705795200000"
  "task_progress taskB = None" "task_color taskB = None"
  by (simp_all add: taskA_def taskB_def)

lemma more_task_fields:
  "task_start milestoneTask = Some 1704067200000" "task_end milestoneTask = Some 1704067200000"
  "task_start invertedTask = Some 1704153600000" "task_end invertedTask = Some 1704110400000"
  "task_start invalidTask = None" "task_end invalidTask = Some 1704844800000"
  "task_start farTask = Some 0" "task_end farTask = Some 8640000000000000"
  by (simp_all add: milestoneTask_def invertedTask_def invalidTask_def farTask_def)

lemma rel_fields:
  "rel_id relAB = ''r1''" "sourceId relAB = ''A''" "targetId relAB = ''B''"
  "rel_type relAB = FS" "rel_lag relAB = Some 2"
  "rel_id relDangling = ''r2''" "sourceId relDangling = ''A''" "targetId relDangling = ''Z''"
  "rel_type relDangling = SS" "rel_lag relDangling = None"
  by (simp_all add: relAB_def relDangling_def)

lemma scenario_fields:
  "tasks (initialComponent\<lparr>tasks := ts\<rparr>) = ts"
  "viewMode (initialComponent\<lparr>tasks := ts\<rparr>) = day"
  "canvasRef (initialComponent\<lparr>tasks := ts\<rparr>) = None"
  by (simp_all add: initial_fields)


lemma autumn_fields:
  "viewMode autumnComponent = month" "canvasRef autumnComponent = None"
  "startDate autumnComponent = Some 1255564800000" "endDate autumnComponent = Some 1258243200000"
  by (simp_all add: autumnComponent_def initial_fields)

lemma initializeDateRange_frame:
  "tasks (initializeDateRange tz now st) = tasks st"
  "viewMode (initializeDateRange tz now st) = viewMode st"
  "canvasRef (initializeDateRange tz now st) = canvasRef st"
  unfolding initializeDateRange_def Let_def by simp_all

lemma initializeDateRange_single:
  "initializeDateRange tz now (st\<lparr>tasks := [task]\<rparr>) =
     (let s0 = newDateOfValue (getTime (task_start task));
          e0 = newDateOfValue (getTime (task_end task));
          paddingDays = js_mul (getTotalDays (st\<lparr>tasks := [task], startDate := s0, endDate := e0\<rparr>))
                          (Fin 0.05)
      in st\<lparr>tasks := [task],
            startDate := setDate tz s0 (js_sub (getDate tz s0) paddingDays),
            endDate := setDate tz e0 (js_add (getDate tz e0) paddingDays)\<rparr>)"
proof -
  have 1: "Math_min_list [v] = v" for v
    by (cases v) (simp_all add: Math_min_list_def Math_min_def)
  have 2: "Math_max_list [v] = v" for v
    by (cases v) (simp_all add: Math_max_list_def Math_max_def)
  show ?thesis
    by (simp add: initializeDateRange_def Let_def 1 2)
qed

lemma newDateOfValue_getTime:
  "\<bar>t\<bar> \<le> 8640000000000000 \<Longrightarrow> newDateOfValue (getTime (Some t)) = Some t"
  "newDateOfValue (getTime None) = None"
  by (simp_all add: newDateOfValue_def getTime_def TimeClip_of_int) (simp add: TimeClip_def)

lemma getTotalDays_of_range:
  "getTotalDays (st\<lparr>startDate := Some s, endDate := Some e\<rparr>) =
     Math_ceil (Fin (of_int (e - s) / 86400000))"
  by (rule getTotalDays_valid) simp_all

lemma getDate_fixedZone: "getDate (fixedZone c) (Some t) = Fin (of_int (DateFromTime (t + c)))"
  by (simp add: getDate_def fixedZone_simps)

lemma cal_jan1: "DateFromTime 1704067200000 = 1"
  by (simp add: DateFromTime_def DayWithinYear_def Day_def msPerDay_def YearFromTime_def
       YearFromDay_def DayFromYear_def InLeapYear_def DaysInYear_def MonthFromTime_def
       MonthFromDay_def MonthStart_def Let_def)

lemma cal_jan10: "DateFromTime 1704844800000 = 10"
  by (simp add: DateFromTime_def DayWithinYear_def Day_def msPerDay_def YearFromTime_def
       YearFromDay_def DayFromYear_def InLeapYear_def DaysInYear_def MonthFromTime_def
       MonthFromDay_def MonthStart_def Let_def)

lemma scenario_range:
  "startDate (initializeDateRange (fixedZone 0) 0 (initialComponent\<lparr>tasks := [taskA]\<rparr>))
     = Some 1703980800000"
  "endDate (initializeDateRange (fixedZone 0) 0 (initialComponent\<lparr>tasks := [taskA]\<rparr>))
     = Some 1704844800000"
  by (simp_all add: initializeDateRange_single Let_def task_fields newDateOfValue_getTime
      getTotalDays_of_range js_mul_Fin_pos getDate_fixedZone cal_jan1 cal_jan10 js_sub_Fin
      js_add_Fin setDate_fixedZone ToIntegerOrInfinity_Fin TimeClip_def msPerDay_def)

lemma milestone_range:
  "startDate (initializeDateRange (fixedZone 0) 0 (initialComponent\<lparr>tasks := [milestoneTask]\<rparr>))
     = Some 1704067200000"
  "endDate (initializeDateRange (fixedZone 0) 0 (initialComponent\<lparr>tasks := [milestoneTask]\<rparr>))
     = Some 1704067200000"
  by (simp_all add: initializeDateRange_single Let_def more_task_fields newDateOfValue_getTime
      getTotalDays_of_range js_mul_Fin_pos getDate_fixedZone js_sub_Fin
      js_add_Fin setDate_fixedZone ToIntegerOrInfinity_Fin cal_jan1 TimeClip_def)

lemma cal_jan2: "DateFromTime 1704153600000 = 2"
  by (simp add: DateFromTime_def DayWithinYear_def Day_def msPerDay_def YearFromTime_def
       YearFromDay_def DayFromYear_def InLeapYear_def DaysInYear_def MonthFromTime_def
       MonthFromDay_def MonthStart_def Let_def)

lemma cal_jan1_noon: "DateFromTime 1704110400000 = 1"
  by (simp add: DateFromTime_def DayWithinYear_def Day_def msPerDay_def YearFromTime_def
       YearFromDay_def DayFromYear_def InLeapYear_def DaysInYear_def MonthFromTime_def
       MonthFromDay_def MonthStart_def Let_def)

lemma inverted_range:
  "startDate (initializeDateRange (fixedZone 0) 0 (initialComponent\<lparr>tasks := [invertedTask]\<rparr>))
     = Some 1704153600000"
  "endDate (initializeDateRange (fixedZone 0) 0 (initialComponent\<lparr>tasks := [invertedTask]\<rparr>))
     = Some 1704110400000"
  by (simp_all add: initializeDateRange_single Let_def more_task_fields newDateOfValue_getTime
      getTotalDays_of_range js_mul_NegZero_pos getDate_fixedZone js_sub_def js_add_def
      cal_jan2 cal_jan1_noon setDate_fixedZone ToIntegerOrInfinity_Fin TimeClip_def msPerDay_def)

lemma invalid_range:
  "startDate (initializeDateRange tz now (initialComponent\<lparr>tasks := [invalidTask]\<rparr>)) = None"
  by (simp add: initializeDateRange_single Let_def more_task_fields newDateOfValue_getTime
      setDate_def)

lemma cal_epoch: "DateFromTime 0 = 1"
  by (simp add: DateFromTime_def DayWithinYear_def Day_def msPerDay_def YearFromTime_def
       YearFromDay_def DayFromYear_def InLeapYear_def DaysInYear_def MonthFromTime_def
       MonthFromDay_def MonthStart_def Let_def)

lemma cal_last: "DateFromTime 8640000000000000 = 13"
  by (simp add: DateFromTime_def DayWithinYear_def Day_def msPerDay_def YearFromTime_def
       YearFromDay_def DayFromYear_def InLeapYear_def DaysInYear_def MonthFromTime_def
       MonthFromDay_def MonthStart_def Let_def)

lemma far_range:
  "startDate (initializeDateRange (fixedZone 0) 0 (initialComponent\<lparr>tasks := [farTask]\<rparr>))
     = Some (- 432000000000000)"
  "endDate (initializeDateRange (fixedZone 0) 0 (initialComponent\<lparr>tasks := [farTask]\<rparr>)) = None"
  by (simp_all add: initializeDateRange_single Let_def more_task_fields newDateOfValue_getTime
      getTotalDays_of_range js_mul_Fin_pos getDate_fixedZone js_sub_Fin js_add_Fin
      cal_epoch cal_last setDate_fixedZone ToIntegerOrInfinity_Fin TimeClip_def msPerDay_def)

lemma milestone_units:
  "getTotalUnits tz (initializeDateRange (fixedZone 0) 0 (initialComponent\<lparr>tasks := [milestoneTask]\<rparr>))
     = Fin 0"
  by (simp add: getTotalUnits_def initializeDateRange_frame scenario_fields
      getTotalDays_valid[OF milestone_range])

lemma inverted_units:
  "getTotalUnits tz (initializeDateRange (fixedZone 0) 0 (initialComponent\<lparr>tasks := [invertedTask]\<rparr>))
     = NegZero"
  by (simp add: getTotalUnits_def initializeDateRange_frame scenario_fields
      getTotalDays_valid[OF inverted_range])





lemma autumn_cal:
  "YearFromTime 1255555800000 = 2009" "MonthFromTime 1255555800000 = 9"
  "YearFromTime 1258230600000 = 2009" "MonthFromTime 1258230600000 = 10"
  "YearFromTime 1257033630000 = 2009" "MonthFromTime 1257033630000 = 10"
  "YearFromTime 1257030090000 = 2009" "MonthFromTime 1257030090000 = 9"
  by (simp_all add: DayWithinYear_def Day_def msPerDay_def YearFromTime_def
       YearFromDay_def DayFromYear_def InLeapYear_def DaysInYear_def MonthFromTime_def
       MonthFromDay_def Let_def)

lemma setBack_local:
  "LocalTime setBackZone 1255564800000 = 1255555800000"
  "LocalTime setBackZone 1258243200000 = 1258230600000"
  "LocalTime setBackZone 1257042630000 = 1257033630000"
  "LocalTime setBackZone 1257042690000 = 1257030090000"
  by (simp_all add: LocalTime_def setBackZone_def)

lemma autumn_width: "getOptimalUnitWidth setBackZone autumnComponent = Fin 150"
  by (simp add: getOptimalUnitWidth_def getTotalUnits_def Let_def getFullYear_def getMonth_def
      autumn_fields setBack_local autumn_cal js_sub_Fin js_add_Fin js_mul_Fin_pos js_div_Fin_pos
      calculateCanvasWidth_def Math_max_def Math_min_def)

lemma autumn_x:
  "getXPositionForDate setBackZone autumnComponent (Some 1257042630000) = Fin 150"
  "getXPositionForDate setBackZone autumnComponent (Some 1257042690000) = Fin 0"
  by (simp_all add: getXPositionForDate_valid[OF autumn_fields(3) autumn_width]
      autumn_fields setBack_local autumn_cal)

lemma demo_totalDays: "getTotalDays demoComponent = Fin 30"
  by (simp add: getTotalDays_valid[OF demo_fields(11,12)])

lemma demo_unitWidth: "getOptimalUnitWidth tz demoComponent = Fin 30"
  by (simp add: getOptimalUnitWidth_def getTotalUnits_def demo_totalDays calculateCanvasWidth_def
      js_div_Fin_pos Math_max_def Math_min_def demo_fields demoCanvas_def)

lemma demo_x:
  "getXPositionForDate tz demoComponent (Some d) = Fin (of_int (d - 1704067200000) / 86400000 * 30)"
  by (simp add: getXPositionForDate_valid[OF demo_fields(11) demo_unitWidth] demo_fields)

lemma demo_taskMap:
  "taskMap demoComponent ''A'' = Some taskA" "taskMap demoComponent ''B'' = Some taskB"
  "taskMap demoComponent ''Z'' = None"
  by (simp_all add: taskMap_def demo_fields task_fields)

lemma demo_line: "relationshipLine tz demoComponent relAB = Some lineAB"
  by (simp add: relationshipLine_def demo_taskMap demo_x demo_unitWidth createRelationshipPath_def
      headerHeight_def demo_fields task_fields rel_fields lineAB_def js_add_Fin js_mul_Fin_pos
      js_div_Fin_pos Let_def)

lemma demo_dangling: "relationshipLine tz demoComponent relDangling = None"
  by (simp add: relationshipLine_def demo_taskMap rel_fields)

lemma demo_lines: "calculateRelationshipLines tz demoComponent = [lineAB]"
  by (simp add: calculateRelationshipLines_def demo_fields List.map_filter_simps demo_line demo_dangling)

lemma demo_drawTasks:
  "drawTasks tz demoComponent =
     [SetFillStyle ''#42a5f5'', FillRect (Fin 0) 110 (Fin 270) 20,
      SetFillStyle ''#1976d2'', FillRect (Fin 0) 110 (Fin 135) 20,
      SetFillStyle ''#333333'', SetFont ''10px Arial'', SetTextAlign ''center'',
      SetTextBaseline ''middle'', FillText (Percent 50) (Fin 135) 120,
      SetFillStyle ''#333333'', SetFont ''10px Arial'', SetTextAlign ''left'',
      SetTextBaseline ''middle'', FillText (Name ''Implement authe...'') (Fin 5) 120,
      SetFillStyle ''#42a5f5'', FillRect (Fin 360) 150 (Fin 240) 20,
      SetFillStyle ''#333333'', SetFont ''10px Arial'', SetTextAlign ''left'',
      SetTextBaseline ''middle'', FillText (Name ''Write tests'') (Fin 365) 160]"
  by (simp add: drawTasks_def drawTask_def taskLabel_def Math_round_def demo_fields task_fields
      demo_x headerHeight_def upt_rec js_sub_Fin js_add_Fin js_mul_Fin_pos js_div_Fin_pos
      js_less_Fin Math_max_def Let_def)

section \<open>Facts on relationship lines and drawing\<close>

lemma taskMap_None_iff: "taskMap st k = None \<longleftrightarrow> k \<notin> task_id ` set (tasks st)"
  unfolding taskMap_def by (simp add: map_of_eq_None_iff image_image)

lemma relationshipLine_dangling:
  assumes "sourceId r \<notin> task_id ` set (tasks st) \<or> targetId r \<notin> task_id ` set (tasks st)"
  shows "relationshipLine tz st r = None"
  using assms unfolding relationshipLine_def
  by (auto simp: taskMap_None_iff[symmetric] split: option.splits)

lemma relationships_frame:
  "getTotalDays (st\<lparr>relationships := rs\<rparr>) = getTotalDays st"
  "calculateCanvasWidth (st\<lparr>relationships := rs\<rparr>) = calculateCanvasWidth st"
  "taskMap (st\<lparr>relationships := rs\<rparr>) = taskMap st"
  by (simp_all add: getTotalDays_def calculateCanvasWidth_def taskMap_def)

lemma relationships_frame_units:
  "getTotalUnits tz (st\<lparr>relationships := rs\<rparr>) = getTotalUnits tz st"
  by (simp add: getTotalUnits_def relationships_frame cong: ViewMode.case_cong)

lemma relationships_frame_width:
  "getOptimalUnitWidth tz (st\<lparr>relationships := rs\<rparr>) = getOptimalUnitWidth tz st"
  by (simp add: getOptimalUnitWidth_def relationships_frame relationships_frame_units)

lemma relationships_frame_x:
  "getXPositionForDate tz (st\<lparr>relationships := rs\<rparr>) = getXPositionForDate tz st"
  by (rule ext) (simp add: getXPositionForDate_def relationships_frame_width cong: ViewMode.case_cong)

lemma relationshipLine_relationships_irrelevant:
  "relationshipLine tz (st\<lparr>relationships := rs\<rparr>) = relationshipLine tz st"
  by (rule ext)
    (simp add: relationshipLine_def relationships_frame relationships_frame_width
      relationships_frame_x
      cong: option.case_cong GanttRelationshipType.case_cong prod.case_cong if_cong)

lemma repaints_frame:
  "getTotalDays (st\<lparr>repaints := n\<rparr>) = getTotalDays st"
  "calculateCanvasWidth (st\<lparr>repaints := n\<rparr>) = calculateCanvasWidth st"
  "taskMap (st\<lparr>repaints := n\<rparr>) = taskMap st"
  by (simp_all add: getTotalDays_def calculateCanvasWidth_def taskMap_def)

lemma repaints_frame_units:
  "getTotalUnits tz (st\<lparr>repaints := n\<rparr>) = getTotalUnits tz st"
  by (simp add: getTotalUnits_def repaints_frame cong: ViewMode.case_cong)

lemma repaints_frame_width:
  "getOptimalUnitWidth tz (st\<lparr>repaints := n\<rparr>) = getOptimalUnitWidth tz st"
  by (simp add: getOptimalUnitWidth_def repaints_frame repaints_frame_units)

lemma repaints_frame_x:
  "getXPositionForDate tz (st\<lparr>repaints := n\<rparr>) = getXPositionForDate tz st"
  by (rule ext) (simp add: getXPositionForDate_def repaints_frame_width cong: ViewMode.case_cong)

lemma relationshipLine_repaints_irrelevant:
  "relationshipLine tz (st\<lparr>repaints := n\<rparr>) = relationshipLine tz st"
  by (rule ext)
    (simp add: relationshipLine_def repaints_frame repaints_frame_width
      repaints_frame_x
      cong: option.case_cong GanttRelationshipType.case_cong prod.case_cong if_cong)

lemma calculateRelationshipLines_repaints_irrelevant:
  "calculateRelationshipLines tz (st\<lparr>repaints := n\<rparr>) = calculateRelationshipLines tz st"
  by (simp add: calculateRelationshipLines_def relationshipLine_repaints_irrelevant)

lemma map_filter_filter_None:
  assumes "\<And>x. x \<in> set xs \<Longrightarrow> \<not> P x \<Longrightarrow> f x = None"
  shows "List.map_filter f (filter P xs) = List.map_filter f xs"
  using assms
proof (induction xs)
  case Nil
  show ?case by simp
next
  case (Cons a xs)
  then have IH: "List.map_filter f (filter P xs) = List.map_filter f xs" by simp
  show ?case
  proof (cases "P a")
    case True
    then show ?thesis by (simp add: List.map_filter_simps IH cong: option.case_cong)
  next
    case False
    with Cons.prems have "f a = None" by simp
    with False show ?thesis by (simp add: List.map_filter_simps IH)
  qed
qed

lemma calculateRelationshipLines_filter:
  "calculateRelationshipLines tz st =
     calculateRelationshipLines tz
       (st\<lparr>relationships :=
             filter (\<lambda>r. sourceId r \<in> task_id ` set (tasks st)
                        \<and> targetId r \<in> task_id ` set (tasks st)) (relationships st)\<rparr>)"
  unfolding calculateRelationshipLines_def relationshipLine_relationships_irrelevant
  by (simp, rule map_filter_filter_None[symmetric]) (auto intro: relationshipLine_dangling)

lemma calculateRelationshipLines_origin:
  assumes "line \<in> set (calculateRelationshipLines tz st)"
  shows "\<exists>r \<in> set (relationships st). relationshipLine tz st r = Some line
           \<and> sourceId r \<in> task_id ` set (tasks st) \<and> targetId r \<in> task_id ` set (tasks st)"
proof -
  from assms obtain r where r: "r \<in> set (relationships st)" "relationshipLine tz st r = Some line"
    unfolding calculateRelationshipLines_def by (auto simp: List.map_filter_def)
  with relationshipLine_dangling[of r st tz] show ?thesis by force
qed

lemma hoveredRelationship_frame:
  "hoveredRelationship (drawChart tz st) = hoveredRelationship st"
  "hoveredRelationship (showRelationshipTooltip event l st) = hoveredRelationship st"
  "hoveredRelationship (hideRelationshipTooltip st) = hoveredRelationship st"
  "hoveredRelationship (setCursor c st) = hoveredRelationship st"
  unfolding drawChart_def drawRelationships_def showRelationshipTooltip_def
    createRelationshipTooltipElement_def hideRelationshipTooltip_def setCursor_def Let_def
  by (simp_all split: option.splits)

lemma handleRelationshipHover_hovered:
  assumes "showRelationships st" and "showTooltips st"
  shows "hoveredRelationship (handleRelationshipHover env event x y st) =
           (if ctx st
            then List.find (\<lambda>line. isPointInStroke env (path line) x y) (relationshipLines st)
            else None)"
  using assms unfolding handleRelationshipHover_def
  by (simp add: hoveredRelationship_frame split: option.splits)

lemma drawChart_frame:
  "showRelationships (drawChart tz st) = showRelationships st"
  "showTooltips (drawChart tz st) = showTooltips st"
  "ctx (drawChart tz st) = ctx st"
  "tasks (drawChart tz st) = tasks st"
  "relationships (drawChart tz st) = relationships st"
  unfolding drawChart_def drawRelationships_def Let_def by simp_all

lemma drawChart_relationshipLines:
  assumes "ctx st" and "showRelationships st" and "relationships st \<noteq> []"
  shows "relationshipLines (drawChart tz st) = calculateRelationshipLines tz st"
  using assms unfolding drawChart_def drawRelationships_def Let_def
  by (simp add: calculateRelationshipLines_repaints_irrelevant)

lemma drawTask_in_drawTasks:
  assumes "ctx st" and "i < length (tasks st)"
  shows "set (drawTask tz st (tasks st ! i) i) \<subseteq> set (drawTasks tz st)"
proof -
  have "(tasks st ! i, i) \<in> set (zip (tasks st) [0 ..< length (tasks st)])"
    using assms(2) by (auto simp: in_set_zip intro!: exI[of _ i])
  then show ?thesis using assms unfolding drawTasks_def by auto
qed

lemma demo_drawn_lines:
  "relationshipLines (drawChart tz demoComponent) = [lineAB]"
  by (simp add: drawChart_relationshipLines demo_fields demo_lines)

lemma stale_fields:
  "tasks staleComponent = [taskA]" "relationships staleComponent = [relAB, relDangling]"
  "showTooltips staleComponent = True" "showRelationships staleComponent = True"
  "ctx staleComponent = True" "relationshipLines staleComponent = [lineAB]"
  by (simp_all add: staleComponent_def drawChart_frame demo_drawn_lines demo_fields)

lemma env_fields:
  "timeZone demoEnv = fixedZone 0" "isPointInStroke demoEnv p x y = True"
  by (simp_all add: demoEnv_def)


section \<open>Properties of the chart\<close>


subsection \<open>The date range of a task list\<close>

text \<open>
  C1. The padding of the date range is meant to be the same number of days before the first
  start and after the last end. For the task from the 1st to the 10th of January 2024, in
  UTC, the padding is 0.45 days, which \<open>setDate\<close> receives as the day numbers 0.55 and
  10.45 and truncates to 0 and 10: the range starts one day before the task, on the 31st of
  December, and ends with the task, not one day (the ceiling of 0.45) after it.
\<close>

theorem initializeDateRange_scenario:
  "js_mul (getTotalDays (initialComponent\<lparr>startDate := task_start taskA,
                                             endDate := task_end taskA\<rparr>)) (Fin 0.05)
     = Fin 0.45
   \<and> Math_ceil (Fin 0.45) = Fin 1
   \<and> startDate (initializeDateRange (fixedZone 0) 0 (initialComponent\<lparr>tasks := [taskA]\<rparr>))
     = Some (1704067200000 - 1 * msPerDay)
   \<and> endDate (initializeDateRange (fixedZone 0) 0 (initialComponent\<lparr>tasks := [taskA]\<rparr>))
     = Some (1704844800000 + 0 * msPerDay)
   \<and> endDate (initializeDateRange (fixedZone 0) 0 (initialComponent\<lparr>tasks := [taskA]\<rparr>))
     \<noteq> Some (1704844800000 + 1 * msPerDay)"
proof -
  have p: "js_mul (getTotalDays (initialComponent\<lparr>startDate := task_start taskA,
                                             endDate := task_end taskA\<rparr>)) (Fin 0.05)
     = Fin 0.45"
    by (simp add: task_fields getTotalDays_of_range js_mul_Fin_pos)
  have "\<lceil>0.45 :: real\<rceil> = 1" by (simp add: ceiling_eq_iff)
  then have c: "Math_ceil (Fin 0.45) = Fin 1" by simp
  have r: "startDate (initializeDateRange (fixedZone 0) 0 (initialComponent\<lparr>tasks := [taskA]\<rparr>))
     = Some (1704067200000 - 1 * msPerDay)"
    "endDate (initializeDateRange (fixedZone 0) 0 (initialComponent\<lparr>tasks := [taskA]\<rparr>))
     = Some (1704844800000 + 0 * msPerDay)"
    "endDate (initializeDateRange (fixedZone 0) 0 (initialComponent\<lparr>tasks := [taskA]\<rparr>))
     \<noteq> Some (1704844800000 + 1 * msPerDay)"
    by (simp_all add: scenario_range msPerDay_def)
  from p c r show ?thesis by blast
qed


subsection \<open>The unit width\<close>

text \<open>
  C2. When both ends of the date range are valid dates, the unit width is a finite number
  within the bounds of the view mode, for every view mode, canvas and time zone. When an
  end of the range is an Invalid Date the unit width is NaN. The division is not guarded:
  a unit count of positive zero gives the largest width of the mode through the quotient
  +Infinity, a unit count of negative zero gives the smallest width through -Infinity, and
  a range that does not end before it starts never has the count negative zero.
\<close>

theorem getOptimalUnitWidth_clamped:
  "(startDate st \<noteq> None \<and> endDate st \<noteq> None \<longrightarrow>
      (\<exists>w. getOptimalUnitWidth tz st = Fin w \<and> min_width (UNIT_WIDTHS (viewMode st)) \<le> w
           \<and> w \<le> max_width (UNIT_WIDTHS (viewMode st))))
   \<and> (startDate st = None \<or> endDate st = None \<longrightarrow> getOptimalUnitWidth tz st = NaN)
   \<and> (getTotalUnits tz st = Fin 0 \<longrightarrow>
        getOptimalUnitWidth tz st = Fin (max_width (UNIT_WIDTHS (viewMode st))))
   \<and> (getTotalUnits tz st = NegZero \<longrightarrow>
        getOptimalUnitWidth tz st = Fin (min_width (UNIT_WIDTHS (viewMode st))))
   \<and> (\<forall>s e. startDate st = Some s \<and> endDate st = Some e \<and> s \<le> e \<longrightarrow>
        getTotalUnits tz st \<noteq> NegZero)"
  using getOptimalUnitWidth_finite[of st _ _ tz] getOptimalUnitWidth_invalid[of st tz]
    getOptimalUnitWidth_zero[of tz st] getOptimalUnitWidth_NegZero[of tz st]
    getTotalUnits_ordered[of st _ _ tz]
  by (intro conjI impI allI) auto

text \<open>
  A task that starts and ends at the same instant has zero days and the width 40; a task
  that ends 12 hours before it starts has the count negative zero and the width 20; a task
  whose start is an Invalid Date has the width NaN; the task of ten days has a width from
  20 to 40 (day view).
\<close>

theorem getOptimalUnitWidth_clamped_witness:
  "getTotalUnits (fixedZone 0)
     (initializeDateRange (fixedZone 0) 0 (initialComponent\<lparr>tasks := [milestoneTask]\<rparr>)) = Fin 0
   \<and> getOptimalUnitWidth (fixedZone 0)
       (initializeDateRange (fixedZone 0) 0 (initialComponent\<lparr>tasks := [milestoneTask]\<rparr>)) = Fin 40
   \<and> getTotalUnits (fixedZone 0)
       (initializeDateRange (fixedZone 0) 0 (initialComponent\<lparr>tasks := [invertedTask]\<rparr>)) = NegZero
   \<and> getOptimalUnitWidth (fixedZone 0)
       (initializeDateRange (fixedZone 0) 0 (initialComponent\<lparr>tasks := [invertedTask]\<rparr>)) = Fin 20
   \<and> getOptimalUnitWidth (fixedZone 0)
       (initializeDateRange (fixedZone 0) 0 (initialComponent\<lparr>tasks := [invalidTask]\<rparr>)) = NaN
   \<and> (\<exists>w. getOptimalUnitWidth (fixedZone 0)
             (initializeDateRange (fixedZone 0) 0 (initialComponent\<lparr>tasks := [taskA]\<rparr>)) = Fin w
          \<and> 20 \<le> w \<and> w \<le> 40)"
  using getOptimalUnitWidth_clamped[of
      "initializeDateRange (fixedZone 0) 0 (initialComponent\<lparr>tasks := [milestoneTask]\<rparr>)" "fixedZone 0"]
    getOptimalUnitWidth_clamped[of
      "initializeDateRange (fixedZone 0) 0 (initialComponent\<lparr>tasks := [invertedTask]\<rparr>)" "fixedZone 0"]
    getOptimalUnitWidth_clamped[of
      "initializeDateRange (fixedZone 0) 0 (initialComponent\<lparr>tasks := [invalidTask]\<rparr>)" "fixedZone 0"]
    getOptimalUnitWidth_clamped[of
      "initializeDateRange (fixedZone 0) 0 (initialComponent\<lparr>tasks := [taskA]\<rparr>)" "fixedZone 0"]
  by (simp add: milestone_units inverted_units invalid_range scenario_range
      initializeDateRange_frame scenario_fields)

text \<open>
  With a unit count that is a zero the width is not always the largest one: for the task
  that ends 12 hours before it starts it is the smallest. And the width is not always
  within the bounds: it is NaN for a task with an invalid start, and for the task from the
  epoch to the last valid time value, whose padded end is no longer a valid date.
\<close>

theorem zero_units_max_width_counterexample:
  "is_zero (getTotalUnits (fixedZone 0)
      (initializeDateRange (fixedZone 0) 0 (initialComponent\<lparr>tasks := [invertedTask]\<rparr>)))
   \<and> getOptimalUnitWidth (fixedZone 0)
       (initializeDateRange (fixedZone 0) 0 (initialComponent\<lparr>tasks := [invertedTask]\<rparr>))
     = Fin (min_width (UNIT_WIDTHS day))
   \<and> getOptimalUnitWidth (fixedZone 0)
       (initializeDateRange (fixedZone 0) 0 (initialComponent\<lparr>tasks := [invertedTask]\<rparr>))
     \<noteq> Fin (max_width (UNIT_WIDTHS day))
   \<and> viewMode (initializeDateRange (fixedZone 0) 0 (initialComponent\<lparr>tasks := [invertedTask]\<rparr>))
     = day
   \<and> getOptimalUnitWidth (fixedZone 0)
       (initializeDateRange (fixedZone 0) 0 (initialComponent\<lparr>tasks := [invalidTask]\<rparr>)) = NaN
   \<and> getOptimalUnitWidth (fixedZone 0)
       (initializeDateRange (fixedZone 0) 0 (initialComponent\<lparr>tasks := [farTask]\<rparr>)) = NaN"
  by (simp add: inverted_units getOptimalUnitWidth_NegZero initializeDateRange_frame
      scenario_fields getOptimalUnitWidth_invalid invalid_range far_range)


subsection \<open>The date range of an empty task list\<close>





subsection \<open>Pointer leave\<close>





subsection \<open>Hit test of the tasks\<close>




subsection \<open>Lag of a relationship\<close>




subsection \<open>Relationships to missing tasks\<close>

text \<open>
  C7. The relationship lines are those computed with every relationship removed whose
  source or target id is not the id of a task; such a relationship has no line; every
  line comes from a relationship whose two ids are ids of tasks. Right after a draw pass
  that has relationships to draw, the line that the hover handler finds also comes from
  such a relationship: the handler tests the lines that the last draw pass has stored.
  The functions are total: no error is raised.
\<close>

theorem dangling_relationships_skipped:
  "calculateRelationshipLines tz st =
     calculateRelationshipLines tz
       (st\<lparr>relationships :=
             filter (\<lambda>r. sourceId r \<in> task_id ` set (tasks st)
                        \<and> targetId r \<in> task_id ` set (tasks st)) (relationships st)\<rparr>)
   \<and> (\<forall>r :: GanttRelationship.
         sourceId r \<notin> task_id ` set (tasks st) \<or> targetId r \<notin> task_id ` set (tasks st)
         \<longrightarrow> relationshipLine tz st r = None)
   \<and> (\<forall>line \<in> set (calculateRelationshipLines tz st).
         \<exists>r \<in> set (relationships st). relationshipLine tz st r = Some line
           \<and> sourceId r \<in> task_id ` set (tasks st) \<and> targetId r \<in> task_id ` set (tasks st))
   \<and> (\<forall>env event x y line.
         showRelationships st \<and> showTooltips st \<and> relationships st \<noteq> []
         \<and> hoveredRelationship
             (handleRelationshipHover env event x y (drawChart (timeZone env) st)) = Some line
         \<longrightarrow> (\<exists>r \<in> set (relationships st). relationshipLine (timeZone env) st r = Some line
                \<and> sourceId r \<in> task_id ` set (tasks st)
                \<and> targetId r \<in> task_id ` set (tasks st)))
   \<and> (\<forall>env event x y line.
         showRelationships st \<and> showTooltips st
         \<and> hoveredRelationship (handleRelationshipHover env event x y st) = Some line
         \<longrightarrow> line \<in> set (relationshipLines st))"
proof (intro conjI allI impI ballI)
  show "calculateRelationshipLines tz st =
     calculateRelationshipLines tz
       (st\<lparr>relationships :=
             filter (\<lambda>r. sourceId r \<in> task_id ` set (tasks st)
                        \<and> targetId r \<in> task_id ` set (tasks st)) (relationships st)\<rparr>)"
    by (rule calculateRelationshipLines_filter)
next
  fix r :: GanttRelationship
  assume "sourceId r \<notin> task_id ` set (tasks st) \<or> targetId r \<notin> task_id ` set (tasks st)"
  then show "relationshipLine tz st r = None" by (rule relationshipLine_dangling)
next
  fix line
  assume "line \<in> set (calculateRelationshipLines tz st)"
  then show "\<exists>r \<in> set (relationships st). relationshipLine tz st r = Some line
           \<and> sourceId r \<in> task_id ` set (tasks st) \<and> targetId r \<in> task_id ` set (tasks st)"
    by (rule calculateRelationshipLines_origin)
next
  fix env event x y line
  assume a: "showRelationships st \<and> showTooltips st \<and> relationships st \<noteq> []
         \<and> hoveredRelationship
             (handleRelationshipHover env event x y (drawChart (timeZone env) st)) = Some line"
  then have h: "hoveredRelationship
             (handleRelationshipHover env event x y (drawChart (timeZone env) st)) = Some line"
    by simp
  have sr: "showRelationships (drawChart (timeZone env) st)"
    "showTooltips (drawChart (timeZone env) st)"
    using a by (simp_all add: drawChart_frame)
  have "hoveredRelationship
             (handleRelationshipHover env event x y (drawChart (timeZone env) st)) =
           (if ctx st
            then List.find (\<lambda>line. isPointInStroke env (path line) x y)
                   (relationshipLines (drawChart (timeZone env) st))
            else None)"
    unfolding handleRelationshipHover_hovered[OF sr] by (simp only: drawChart_frame)
  with h have c: "ctx st"
    and f: "List.find (\<lambda>line. isPointInStroke env (path line) x y)
                   (relationshipLines (drawChart (timeZone env) st)) = Some line"
    by (auto split: if_splits)
  from f a c have "List.find (\<lambda>line. isPointInStroke env (path line) x y)
               (calculateRelationshipLines (timeZone env) st) = Some line"
    by (simp add: drawChart_relationshipLines)
  then have "line \<in> set (calculateRelationshipLines (timeZone env) st)"
    by (auto simp: find_Some_iff)
  then show "\<exists>r \<in> set (relationships st). relationshipLine (timeZone env) st r = Some line
           \<and> sourceId r \<in> task_id ` set (tasks st) \<and> targetId r \<in> task_id ` set (tasks st)"
    by (rule calculateRelationshipLines_origin)
next
  fix env event x y line
  assume a: "showRelationships st \<and> showTooltips st
         \<and> hoveredRelationship (handleRelationshipHover env event x y st) = Some line"
  then have "(if ctx st
            then List.find (\<lambda>line. isPointInStroke env (path line) x y) (relationshipLines st)
            else None) = Some line"
    using handleRelationshipHover_hovered[of st env event x y] by simp
  then show "line \<in> set (relationshipLines st)"
    by (auto simp: find_Some_iff split: if_splits)
qed

text \<open>
  On the example chart the relationship to the missing task ''Z'' leaves no line, and the
  pointer at the start of the line from A to B, right after a draw pass, finds that line,
  whose relationship has both its tasks.
\<close>

theorem dangling_relationships_skipped_witness:
  "relationshipLine (fixedZone 0) demoComponent relDangling = None
   \<and> calculateRelationshipLines (fixedZone 0) demoComponent = [lineAB]
   \<and> calculateRelationshipLines (fixedZone 0) (demoComponent\<lparr>relationships := [relAB]\<rparr>) = [lineAB]
   \<and> hoveredRelationship
       (handleRelationshipHover demoEnv lineEvent 270 120 (drawChart (fixedZone 0) demoComponent))
       = Some lineAB
   \<and> lineAB \<in> set (relationshipLines (drawChart (fixedZone 0) demoComponent))
   \<and> relationshipLine (fixedZone 0) demoComponent relAB = Some lineAB
   \<and> sourceId relAB \<in> task_id ` set (tasks demoComponent)
   \<and> targetId relAB \<in> task_id ` set (tasks demoComponent)"
proof -
  have ids: "task_id ` set (tasks demoComponent) = {''A'', ''B''}"
    by (simp add: demo_fields task_fields)
  have fl: "filter (\<lambda>r. sourceId r \<in> task_id ` set (tasks demoComponent)
                     \<and> targetId r \<in> task_id ` set (tasks demoComponent))
          (relationships demoComponent) = [relAB]"
    unfolding ids by (simp add: demo_fields rel_fields)
  have hov: "hoveredRelationship
       (handleRelationshipHover demoEnv lineEvent 270 120 (drawChart (fixedZone 0) demoComponent))
       = Some lineAB"
    by (simp add: handleRelationshipHover_hovered drawChart_frame demo_fields demo_drawn_lines
        env_fields)
  note t = dangling_relationships_skipped[of "fixedZone 0" demoComponent]
  have pre: "showRelationships demoComponent \<and> showTooltips demoComponent
      \<and> relationships demoComponent \<noteq> []
      \<and> hoveredRelationship
            (handleRelationshipHover demoEnv lineEvent 270 120
               (drawChart (timeZone demoEnv) demoComponent)) = Some lineAB"
    using hov by (simp add: demo_fields env_fields)
  have pre2: "showRelationships (drawChart (fixedZone 0) demoComponent)
      \<and> showTooltips (drawChart (fixedZone 0) demoComponent)
      \<and> hoveredRelationship
            (handleRelationshipHover demoEnv lineEvent 270 120
               (drawChart (fixedZone 0) demoComponent)) = Some lineAB"
    using hov by (simp add: demo_fields drawChart_frame)
  from dangling_relationships_skipped[of "fixedZone 0" "drawChart (fixedZone 0) demoComponent",
         THEN conjunct2, THEN conjunct2, THEN conjunct2, THEN conjunct2, rule_format,
         of demoEnv lineEvent 270 120 lineAB, OF pre2]
  have stored: "lineAB \<in> set (relationshipLines (drawChart (fixedZone 0) demoComponent))" .
  from t[THEN conjunct2, THEN conjunct2, THEN conjunct2, THEN conjunct1, rule_format,
         of demoEnv lineEvent 270 120 lineAB, OF pre]
  have "\<exists>r \<in> set (relationships demoComponent).
      relationshipLine (timeZone demoEnv) demoComponent r = Some lineAB
      \<and> sourceId r \<in> task_id ` set (tasks demoComponent)
      \<and> targetId r \<in> task_id ` set (tasks demoComponent)" .
  then have "relationshipLine (fixedZone 0) demoComponent relAB = Some lineAB
      \<and> sourceId relAB \<in> task_id ` set (tasks demoComponent)
      \<and> targetId relAB \<in> task_id ` set (tasks demoComponent)"
    by (auto simp: demo_fields env_fields demo_dangling)
  with t fl hov stored show ?thesis by (simp add: demo_lines demo_dangling)
qed

text \<open>
  When task B has been removed since the last draw pass, the relationship from A to B has
  a missing target and no line is computed for it, but the stored lines still hold its
  line, and the hover handler finds it.
\<close>

theorem stale_lines_hit_counterexample:
  "targetId relAB \<notin> task_id ` set (tasks staleComponent)
   \<and> relationshipLine (fixedZone 0) staleComponent relAB = None
   \<and> calculateRelationshipLines (fixedZone 0) staleComponent = []
   \<and> relationshipLines staleComponent = [lineAB]
   \<and> line_id lineAB = rel_id relAB
   \<and> task_id (targetTask lineAB) \<notin> task_id ` set (tasks staleComponent)
   \<and> hoveredRelationship (handleRelationshipHover demoEnv lineEvent 270 120 staleComponent)
       = Some lineAB"
proof -
  have ids: "task_id ` set (tasks staleComponent) = {''A''}"
    by (simp add: stale_fields task_fields)
  have tB: "targetId relAB \<notin> task_id ` set (tasks staleComponent)"
    unfolding ids by (simp add: rel_fields)
  have tZ: "targetId relDangling \<notin> task_id ` set (tasks staleComponent)"
    unfolding ids by (simp add: rel_fields)
  have d1: "relationshipLine (fixedZone 0) staleComponent relAB = None"
    using tB by (simp add: relationshipLine_dangling)
  have d2: "relationshipLine (fixedZone 0) staleComponent relDangling = None"
    using tZ by (simp add: relationshipLine_dangling)
  have c: "calculateRelationshipLines (fixedZone 0) staleComponent = []"
    by (simp add: calculateRelationshipLines_def stale_fields List.map_filter_simps d1 d2)
  have h: "hoveredRelationship (handleRelationshipHover demoEnv lineEvent 270 120 staleComponent)
       = Some lineAB"
    by (simp add: handleRelationshipHover_hovered stale_fields env_fields)
  have l: "line_id lineAB = rel_id relAB" "task_id (targetTask lineAB) = ''B''"
    by (simp_all add: lineAB_def rel_fields task_fields)
  have tl: "task_id (targetTask lineAB) \<notin> task_id ` set (tasks staleComponent)"
    unfolding ids l by simp
  from tB d1 c h l(1) tl show ?thesis
    by (simp only: stale_fields simp_thms)
qed


subsection \<open>Monotonicity of the date to pixel mapping\<close>

text \<open>
  C8. For a state whose range has valid ends, so for a fixed view mode and range, a later
  valid date is not to the left of an earlier one in the day and week views; in the month
  and year views the same holds for two dates whose local times are in the same order as
  their instants, as they are wherever the clocks of the zone are not set back between them.
\<close>

theorem getXPositionForDate_monotone:
  assumes "d1 \<le> d2"
      and "startDate st \<noteq> None" and "endDate st \<noteq> None"
      and "viewMode st = month \<or> viewMode st = year \<longrightarrow> LocalTime tz d1 \<le> LocalTime tz d2"
  shows "js_le (getXPositionForDate tz st (Some d1)) (getXPositionForDate tz st (Some d2))"
proof -
  from assms(2,3) obtain s e where se: "startDate st = Some s" "endDate st = Some e" by auto
  from unitWidth_pos[OF se, of tz] obtain w
    where w: "0 < w" "getOptimalUnitWidth tz st = Fin w" by blast
  have days: "(of_int (d1 - s) :: real) \<le> of_int (d2 - s)"
    using assms(1) by simp
  show ?thesis
  proof (cases "viewMode st")
    case day
    then show ?thesis
      unfolding getXPositionForDate_valid[OF se(1) w(2) w(1)] js_le_Fin
      using days w(1) by (simp add: mult_right_mono divide_right_mono)
  next
    case week
    then show ?thesis
      unfolding getXPositionForDate_valid[OF se(1) w(2) w(1)] js_le_Fin
      using days w(1) by (simp add: mult_right_mono divide_right_mono)
  next
    case month
    with assms(4) have l: "LocalTime tz d1 \<le> LocalTime tz d2" by simp
    have "(YearFromTime (LocalTime tz d1) - YearFromTime (LocalTime tz s)) * 12
            + (MonthFromTime (LocalTime tz d1) - MonthFromTime (LocalTime tz s))
        \<le> (YearFromTime (LocalTime tz d2) - YearFromTime (LocalTime tz s)) * 12
            + (MonthFromTime (LocalTime tz d2) - MonthFromTime (LocalTime tz s))"
      using month_index_mono[OF l] by (simp add: algebra_simps)
    then have "(of_int ((YearFromTime (LocalTime tz d1) - YearFromTime (LocalTime tz s)) * 12
            + (MonthFromTime (LocalTime tz d1) - MonthFromTime (LocalTime tz s))) :: real)
        \<le> of_int ((YearFromTime (LocalTime tz d2) - YearFromTime (LocalTime tz s)) * 12
            + (MonthFromTime (LocalTime tz d2) - MonthFromTime (LocalTime tz s)))"
      by (simp only: of_int_le_iff)
    then show ?thesis
      unfolding getXPositionForDate_valid[OF se(1) w(2) w(1)] js_le_Fin
      using month w(1) by (simp add: mult_right_mono del: of_int_add of_int_diff of_int_mult)
  next
    case year
    with assms(4) have l: "LocalTime tz d1 \<le> LocalTime tz d2" by simp
    have "(of_int (YearFromTime (LocalTime tz d1) - YearFromTime (LocalTime tz s)) :: real)
        \<le> of_int (YearFromTime (LocalTime tz d2) - YearFromTime (LocalTime tz s))"
      using YearFromTime_mono[OF l] by simp
    then show ?thesis
      unfolding getXPositionForDate_valid[OF se(1) w(2) w(1)] js_le_Fin
      using year w(1) by (simp add: mult_right_mono del: of_int_diff)
  qed
qed

text \<open>
  The starts of tasks A and B in each of the four view modes, in UTC.
\<close>

theorem getXPositionForDate_monotone_witness:
  "js_le (getXPositionForDate (fixedZone 0) (demoComponent\<lparr>viewMode := day\<rparr>) (Some 1704067200000))
     (getXPositionForDate (fixedZone 0) (demoComponent\<lparr>viewMode := day\<rparr>) (Some 1705104000000))
   \<and> js_le (getXPositionForDate (fixedZone 0) (demoComponent\<lparr>viewMode := week\<rparr>) (Some 1704067200000))
     (getXPositionForDate (fixedZone 0) (demoComponent\<lparr>viewMode := week\<rparr>) (Some 1705104000000))
   \<and> js_le (getXPositionForDate (fixedZone 0) (demoComponent\<lparr>viewMode := month\<rparr>) (Some 1704067200000))
     (getXPositionForDate (fixedZone 0) (demoComponent\<lparr>viewMode := month\<rparr>) (Some 1705104000000))
   \<and> js_le (getXPositionForDate (fixedZone 0) (demoComponent\<lparr>viewMode := year\<rparr>) (Some 1704067200000))
     (getXPositionForDate (fixedZone 0) (demoComponent\<lparr>viewMode := year\<rparr>) (Some 1705104000000))"
  using getXPositionForDate_monotone[of 1704067200000 1705104000000 _ "fixedZone 0"]
  by (simp add: demo_fields fixedZone_simps)

text \<open>
  In a zone that sets its clocks back by an hour one minute after the local midnight that
  starts November, the instant 30 seconds before the change is in November and the instant
  30 seconds after it is in October again: in the month view the earlier instant is at 150
  and the later one at 0. And the position of an Invalid Date is NaN, which is not less
  than or equal to any position.
\<close>

theorem getXPositionForDate_monotone_counterexample:
  "(1257042630000 :: int) < 1257042690000
   \<and> getXPositionForDate setBackZone autumnComponent (Some 1257042630000) = Fin 150
   \<and> getXPositionForDate setBackZone autumnComponent (Some 1257042690000) = Fin 0
   \<and> \<not> js_le (getXPositionForDate setBackZone autumnComponent (Some 1257042630000))
            (getXPositionForDate setBackZone autumnComponent (Some 1257042690000))
   \<and> \<not> js_le (getXPositionForDate (fixedZone 0) demoComponent None)
            (getXPositionForDate (fixedZone 0) demoComponent (Some 1705104000000))"
proof -
  have "getXPositionForDate (fixedZone 0) demoComponent None = NaN"
    by (simp add: getXPositionForDate_def getTime_def js_NaN demo_fields Let_def)
  then show ?thesis
    by (simp add: autumn_x js_le_Fin js_less_Fin js_le_def)
qed


subsection \<open>Task names\<close>

text \<open>
  C9. On a bar wider than 60 pixels a name of more than 15 characters is drawn as its first
  15 characters followed by three dots, and no other name is drawn for the task. For
  ''Implement authentication module'' that is ''Implement authe...''.
\<close>

theorem long_task_name_truncated:
  assumes "ctx st" and "i < length (tasks st)"
      and "js_less (Fin 60)
            (Math_max (js_sub (getXPositionForDate tz st (task_end (tasks st ! i)))
                              (getXPositionForDate tz st (task_start (tasks st ! i)))) (Fin 2))"
      and "length (task_name (tasks st ! i)) > 15"
  shows "FillText (Name (take 15 (task_name (tasks st ! i)) @ ''...''))
           (js_add (getXPositionForDate tz st (task_start (tasks st ! i))) (Fin 5))
           (headerHeight + real i * rowHeight st + (rowHeight st - barHeight st) / 2
              + barHeight st / 2)
         \<in> set (drawTasks tz st)
       \<and> (\<forall>s x y. FillText (Name s) x y \<in> set (drawTask tz st (tasks st ! i) i)
             \<longrightarrow> s = take 15 (task_name (tasks st ! i)) @ ''...'')
       \<and> (task_name (tasks st ! i) = ''Implement authentication module''
             \<longrightarrow> take 15 (task_name (tasks st ! i)) @ ''...'' = ''Implement authe...'')"
proof (intro conjI)
  have "FillText (Name (take 15 (task_name (tasks st ! i)) @ ''...''))
           (js_add (getXPositionForDate tz st (task_start (tasks st ! i))) (Fin 5))
           (headerHeight + real i * rowHeight st + (rowHeight st - barHeight st) / 2
              + barHeight st / 2)
         \<in> set (drawTask tz st (tasks st ! i) i)"
    using assms(3,4) unfolding drawTask_def Let_def taskLabel_def by simp
  with drawTask_in_drawTasks[OF assms(1,2), of tz]
  show "FillText (Name (take 15 (task_name (tasks st ! i)) @ ''...''))
           (js_add (getXPositionForDate tz st (task_start (tasks st ! i))) (Fin 5))
           (headerHeight + real i * rowHeight st + (rowHeight st - barHeight st) / 2
              + barHeight st / 2)
         \<in> set (drawTasks tz st)" by blast
next
  show "\<forall>s x y. FillText (Name s) x y \<in> set (drawTask tz st (tasks st ! i) i)
             \<longrightarrow> s = take 15 (task_name (tasks st ! i)) @ ''...''"
    using assms(3,4) unfolding drawTask_def Let_def taskLabel_def
    by (auto split: option.splits if_splits)
next
  show "task_name (tasks st ! i) = ''Implement authentication module''
             \<longrightarrow> take 15 (task_name (tasks st ! i)) @ ''...'' = ''Implement authe...''"
    by simp
qed

text \<open>
  Task A has that name, of 31 characters, on a bar of 270 pixels.
\<close>

theorem long_task_name_truncated_witness:
  "length ''Implement authentication module'' = 31
   \<and> FillText (Name ''Implement authe...'') (Fin 5) 120 \<in> set (drawTasks (fixedZone 0) demoComponent)"
  using long_task_name_truncated[of demoComponent 0 "fixedZone 0"]
  by (simp add: demo_fields task_fields demo_x headerHeight_def js_sub_Fin js_add_Fin
      js_less_Fin Math_max_def)

text \<open>
  The text ''Implement autho...'' is not the label, and is not drawn.
\<close>

theorem task_name_scenario_counterexample:
  "taskLabel ''Implement authentication module'' \<noteq> ''Implement autho...''
   \<and> FillText (Name ''Implement autho...'') (Fin 5) 120 \<notin> set (drawTasks (fixedZone 0) demoComponent)"
  by (simp add: taskLabel_def demo_drawTasks)


subsection \<open>Pointer move without tooltips\<close>

text \<open>
  C10. With \<open>showTooltips\<close> off the pointer-move handler returns the state unchanged,
  whatever the hit test of the environment answers: hover fields, tooltips, cursor,
  relationship lines and the count of repaints are as before.
\<close>

theorem onMouseMove_without_tooltips:
  "\<not> showTooltips st \<Longrightarrow> onMouseMove env event st = st"
  unfolding onMouseMove_def handleRelationshipHover_def handleTaskHover_def
  by (simp split: option.splits prod.splits)

text \<open>
  A move over the hovered line and task A with tooltips off.
\<close>

theorem onMouseMove_without_tooltips_witness:
  "onMouseMove demoEnv demoEvent (hoveringComponent\<lparr>showTooltips := False\<rparr>)
     = hoveringComponent\<lparr>showTooltips := False\<rparr>"
  using onMouseMove_without_tooltips[of "hoveringComponent\<lparr>showTooltips := False\<rparr>" demoEnv demoEvent]
  by simp

end
